theory Spec2Isabelle
  imports Complex_Main
begin

section \<open>JavaScript values used by the storage layer\<close>

subsection \<open>Strings\<close>

text \<open>
  \<^verbatim>\<open>s.padStart(n, c)\<close> with a one-character filler and \<^verbatim>\<open>s.slice(-n)\<close>.
\<close>

definition padStart :: "nat \<Rightarrow> char \<Rightarrow> string \<Rightarrow> string" where
  "padStart n c s = replicate (n - length s) c @ s"

definition sliceLast :: "nat \<Rightarrow> string \<Rightarrow> string" where
  "sliceLast n s = drop (length s - n) s"

text \<open>
  The value of a character as a digit: \<open>0\<close> to \<open>9\<close>, then the letters of either case
  from ten on, as \<^verbatim>\<open>parseInt\<close> reads them.
\<close>

definition digitValue :: "char \<Rightarrow> nat option" where
  "digitValue c =
     (let n = (of_char c :: nat) in
      if 48 \<le> n \<and> n \<le> 57 then Some (n - 48)
      else if 97 \<le> n \<and> n \<le> 122 then Some (n - 87)
      else if 65 \<le> n \<and> n \<le> 90 then Some (n - 55)
      else None)"

definition isDigitOf :: "nat \<Rightarrow> char \<Rightarrow> bool" where
  "isDigitOf radix c = (case digitValue c of None \<Rightarrow> False | Some v \<Rightarrow> v < radix)"

definition digitOf :: "char \<Rightarrow> nat" where
  "digitOf c = (case digitValue c of None \<Rightarrow> 0 | Some v \<Rightarrow> v)"

definition digitChar :: "nat \<Rightarrow> char" where
  "digitChar d = ''0123456789'' ! d"

text \<open>The decimal numeral of a natural number, most significant digit first.\<close>

function decimal :: "nat \<Rightarrow> string" where
  "decimal n = (if n < 10 then [digitChar n] else decimal (n div 10) @ [digitChar (n mod 10)])"
  by pat_completeness auto
termination
  by (relation "measure (\<lambda>n. n)") auto

declare decimal.simps [simp del]

subsection \<open>Numbers that stand for identifiers\<close>

text \<open>
  The numeric identifiers of the storage interface are JavaScript numbers. The model
  covers the integers and \<^verbatim>\<open>NaN\<close> (which \<^verbatim>\<open>parseInt\<close> returns when it finds no digit).
  \<^verbatim>\<open>Number.prototype.toString\<close> prints an integer below \<open>2^53\<close> as its decimal numeral,
  with a minus sign when negative. From \<open>2^53\<close> on JavaScript's numbers are no longer all
  the integers and are printed with the fewest digits that tell them apart, so a statement
  that depends on how a number is printed or read is made for magnitudes below \<open>2^53\<close>.
\<close>

datatype number = NaN | Number int

definition printedExactly :: "number \<Rightarrow> bool" where
  "printedExactly x = (case x of NaN \<Rightarrow> True | Number n \<Rightarrow> \<bar>n\<bar> < 2 ^ 53)"

definition numberToString :: "number \<Rightarrow> string" where
  "numberToString x =
     (case x of
        NaN \<Rightarrow> ''NaN''
      | Number n \<Rightarrow> if n < 0 then CHR ''-'' # decimal (nat (- n)) else decimal (nat n))"

text \<open>
  \<^verbatim>\<open>parseInt(s, radix)\<close> on a string that starts with neither white space, a sign nor a
  \<^verbatim>\<open>0x\<close> prefix (the strings it meets here are the hexadecimal characters of a document
  identifier): the longest prefix of digits of the radix is read, and no digit at all
  gives \<^verbatim>\<open>NaN\<close>. Without a radix the radix is ten.
\<close>

definition parseIntRadix :: "nat \<Rightarrow> string \<Rightarrow> number" where
  "parseIntRadix radix s =
     (let ds = takeWhile (isDigitOf radix) s in
      if ds = [] then NaN
      else Number (int (foldl (\<lambda>a c. a * radix + digitOf c) 0 ds)))"

definition parseInt :: "string \<Rightarrow> number" where
  "parseInt s = parseIntRadix 10 s"

text \<open>JavaScript's truthiness of a number: neither zero nor \<^verbatim>\<open>NaN\<close>.\<close>

definition truthy :: "number \<Rightarrow> bool" where
  "truthy x = (case x of NaN \<Rightarrow> False | Number n \<Rightarrow> n \<noteq> 0)"

subsection \<open>Document identifiers\<close>

text \<open>
  A document identifier (\<^verbatim>\<open>mongoose.Types.ObjectId\<close>) is kept as the string that its
  \<^verbatim>\<open>toString()\<close> returns: 24 hexadecimal characters. The constructor throws on any
  other string of 24 or more characters, which is \<open>None\<close> here, and prints letters in
  lower case.
\<close>

type_synonym objectId = string

definition isObjectId :: "string \<Rightarrow> bool" where
  "isObjectId s = (length s = 24 \<and> list_all (isDigitOf 16) s)"

definition toLowerCase :: "char \<Rightarrow> char" where
  \<comment> \<open>only the letters a hexadecimal string can hold\<close>
  "toLowerCase c =
     (if c = CHR ''A'' then CHR ''a'' else if c = CHR ''B'' then CHR ''b''
      else if c = CHR ''C'' then CHR ''c'' else if c = CHR ''D'' then CHR ''d''
      else if c = CHR ''E'' then CHR ''e'' else if c = CHR ''F'' then CHR ''f'' else c)"

definition newObjectId :: "string \<Rightarrow> objectId option" where
  "newObjectId s = (if isObjectId s then Some (map toLowerCase s) else None)"

text \<open>
  \<^verbatim>\<open>new mongoose.Types.ObjectId(id.toString().padStart(24, '0'))\<close>, the expression by
  which every method turns a numeric identifier into a document identifier.
\<close>

definition objectIdOfNumber :: "number \<Rightarrow> objectId option" where
  "objectIdOfNumber n = newObjectId (padStart 24 (CHR ''0'') (numberToString n))"

text \<open>
  \<^verbatim>\<open>parseInt(doc._id.toString().slice(-6), 16)\<close>, the numeric identifier the conversion
  helpers give a document.
\<close>

definition idOfObjectId :: "objectId \<Rightarrow> number" where
  "idOfObjectId oid = parseIntRadix 16 (sliceLast 6 oid)"

subsection \<open>Numbers that stand for amounts\<close>

text \<open>
  Amounts are stored as strings and computed with as IEEE 754 doubles
  (\<^verbatim>\<open>parseFloat\<close>, \<^verbatim>\<open>+\<close>, \<^verbatim>\<open>*\<close>, \<^verbatim>\<open>=== 0\<close>, \<^verbatim>\<open>toFixed\<close>). The arithmetic of the
  runtime is a parameter of the model: a record of the operations the storage layer calls,
  over any carrier \<open>'n\<close>. What is proved holds for every such record, the runtime's own
  included.
\<close>

record 'n jsNumbers =
  parseFloat :: "string \<Rightarrow> 'n"
  addition :: "'n \<Rightarrow> 'n \<Rightarrow> 'n"
  multiplication :: "'n \<Rightarrow> 'n \<Rightarrow> 'n"
  ofInteger :: "int \<Rightarrow> 'n"  \<comment> \<open>an integer literal of the source, \<^verbatim>\<open>0\<close> or \<^verbatim>\<open>1\<close>\<close>
  literal_0_01 :: "'n"  \<comment> \<open>the literal \<^verbatim>\<open>0.01\<close>\<close>
  strictEquals :: "'n \<Rightarrow> 'n \<Rightarrow> bool"  \<comment> \<open>\<^verbatim>\<open>===\<close> on two numbers\<close>
  toFixed :: "'n \<Rightarrow> nat \<Rightarrow> string"

text \<open>
  \<^verbatim>\<open>x || d\<close> on an optional string: an absent or empty string is falsy. With \<^verbatim>\<open>null\<close>
  for \<open>d\<close> the result is optional again.
\<close>

definition orElse :: "string option \<Rightarrow> string \<Rightarrow> string" where
  "orElse x d = (case x of None \<Rightarrow> d | Some s \<Rightarrow> if s = [] then d else s)"

definition orNull :: "string option \<Rightarrow> string option" where
  "orNull x = (case x of None \<Rightarrow> None | Some s \<Rightarrow> if s = [] then None else Some s)"

section \<open>The documents and the store\<close>

text \<open>
  Dates are milliseconds since the epoch. Each record type is used twice: for the
  document in its collection, whose identifier and owner reference are document
  identifiers, and for the plain object a method returns, where both are numbers.
\<close>

type_synonym date = int

record 'i User =
  user_id :: 'i
  username :: string
  password :: string
  balance :: string
  meowBalance :: string
  isAdmin :: bool
  isBanned :: bool
  user_createdAt :: date

record ('i, 'u) Deposit =
  deposit_id :: 'i
  deposit_userId :: 'u
  deposit_amount :: string
  deposit_receiptUrl :: "string option"
  deposit_status :: string
  deposit_createdAt :: date

record ('i, 'u) Withdrawal =
  withdrawal_id :: 'i
  withdrawal_userId :: 'u
  withdrawal_amount :: string
  withdrawal_platform :: string
  withdrawal_accountInfo :: string
  withdrawal_status :: string
  withdrawal_createdAt :: date

record ('i, 'u) GameHistory =
  game_id :: 'i
  game_userId :: 'u
  gameType :: string
  betAmount :: string
  winAmount :: string
  meowWon :: string
  result :: "string option"
  game_createdAt :: date

record ('i, 'u) Jackpot =
  jackpot_id :: 'i
  amount :: string
  lastWinnerId :: "'u option"
  lastWonAt :: "date option"
  updatedAt :: date

record ('i, 'u, 'n) FarmCat =
  cat_id :: 'i
  cat_userId :: 'u
  catId :: string
  level :: 'n
  production :: 'n
  lastClaimed :: date
  cat_createdAt :: date

record 'n FarmData =
  cats :: "(number, number, 'n) FarmCat list"
  totalProduction :: 'n
  unclaimedMeow :: string

text \<open>
  The state of a \<^verbatim>\<open>MongoStorage\<close>: its \<^verbatim>\<open>isConnected\<close> flag and the six collections, each
  the list of its documents in the order they were inserted.
\<close>

record 'n storage =
  isConnected :: bool
  users :: "objectId User list"
  deposits :: "(objectId, objectId) Deposit list"
  withdrawals :: "(objectId, objectId) Withdrawal list"
  gameHistory :: "(objectId, objectId) GameHistory list"
  jackpots :: "(objectId, objectId) Jackpot list"
  farmCats :: "(objectId, objectId, 'n) FarmCat list"

text \<open>
  What a call takes from outside the program: the clock (the \<open>k\<close>-th \<^verbatim>\<open>new Date()\<close> the
  call evaluates), the identifier the driver gives the \<open>k\<close>-th document the call
  makes, whether the awaited operation that stands \<open>k\<close>-th in the method's text (a query
  or write of the store, or \<^verbatim>\<open>bcrypt.hash\<close>) is rejected, and \<^verbatim>\<open>bcrypt.hash\<close> itself, salt
  included. A rejected write leaves the store as it was.
\<close>

record env =
  clock :: "nat \<Rightarrow> date"
  newId :: "nat \<Rightarrow> objectId"
  fails :: "nat \<Rightarrow> bool"
  bcrypt_hash :: "string \<Rightarrow> nat \<Rightarrow> string"

definition later :: "nat \<Rightarrow> env \<Rightarrow> env" where
  \<comment> \<open>the environment of a nested call that starts after \<open>n\<close> awaited operations\<close>
  "later n e = e\<lparr>fails := (\<lambda>k. fails e (k + n))\<rparr>"

datatype error = NotConnected | BSONError | HashError | StoreError | DuplicateKey

subsection \<open>Queries and writes of a collection\<close>

definition findOne :: "('d \<Rightarrow> bool) \<Rightarrow> 'd list \<Rightarrow> 'd option" where
  "findOne p docs = List.find p docs"

fun updateFirst :: "('d \<Rightarrow> bool) \<Rightarrow> ('d \<Rightarrow> 'd) \<Rightarrow> 'd list \<Rightarrow> 'd list" where
  "updateFirst p f [] = []"
| "updateFirst p f (d # ds) = (if p d then f d # ds else d # updateFirst p f ds)"

definition updateMany :: "('d \<Rightarrow> bool) \<Rightarrow> ('d \<Rightarrow> 'd) \<Rightarrow> 'd list \<Rightarrow> 'd list" where
  "updateMany p f docs = map (\<lambda>d. if p d then f d else d) docs"

text \<open>
  \<^verbatim>\<open>doc.save()\<close> of a new document: rejected by the environment, or by the unique index
  on the identifier, or the document is added.
\<close>

definition saveNew :: "bool \<Rightarrow> ('d \<Rightarrow> objectId) \<Rightarrow> 'd \<Rightarrow> 'd list \<Rightarrow> error + 'd list" where
  "saveNew rejected key doc docs =
     (if rejected then Inl StoreError
      else if key doc \<in> set (map key docs) then Inl DuplicateKey
      else Inr (docs @ [doc]))"

text \<open>
  \<^verbatim>\<open>.sort({ createdAt: -1 })\<close>: newest first. The store does not say in which order it
  returns documents of the same date; the model keeps them in insertion order.
\<close>

definition sortNewestFirst :: "('d \<Rightarrow> date) \<Rightarrow> 'd list \<Rightarrow> 'd list" where
  "sortNewestFirst createdAt docs = sort_key (\<lambda>d. - createdAt d) docs"

subsection \<open>The conversion helpers\<close>

definition convertMongoUser :: "objectId User \<Rightarrow> number User" where
  "convertMongoUser user =
     \<lparr>user_id = idOfObjectId (user_id user),
      username = username user,
      password = password user,
      balance = balance user,
      meowBalance = meowBalance user,
      isAdmin = isAdmin user,
      isBanned = isBanned user,
      user_createdAt = user_createdAt user\<rparr>"

definition convertMongoDeposit :: "(objectId, objectId) Deposit \<Rightarrow> (number, number) Deposit" where
  "convertMongoDeposit deposit =
     \<lparr>deposit_id = idOfObjectId (deposit_id deposit),
      deposit_userId = parseInt (deposit_userId deposit),
      deposit_amount = deposit_amount deposit,
      deposit_receiptUrl = deposit_receiptUrl deposit,
      deposit_status = deposit_status deposit,
      deposit_createdAt = deposit_createdAt deposit\<rparr>"

definition convertMongoWithdrawal ::
  "(objectId, objectId) Withdrawal \<Rightarrow> (number, number) Withdrawal" where
  "convertMongoWithdrawal withdrawal =
     \<lparr>withdrawal_id = idOfObjectId (withdrawal_id withdrawal),
      withdrawal_userId = parseInt (withdrawal_userId withdrawal),
      withdrawal_amount = withdrawal_amount withdrawal,
      withdrawal_platform = withdrawal_platform withdrawal,
      withdrawal_accountInfo = withdrawal_accountInfo withdrawal,
      withdrawal_status = withdrawal_status withdrawal,
      withdrawal_createdAt = withdrawal_createdAt withdrawal\<rparr>"

definition convertMongoGameHistory ::
  "(objectId, objectId) GameHistory \<Rightarrow> (number, number) GameHistory" where
  "convertMongoGameHistory game =
     \<lparr>game_id = idOfObjectId (game_id game),
      game_userId = parseInt (game_userId game),
      gameType = gameType game,
      betAmount = betAmount game,
      winAmount = winAmount game,
      meowWon = meowWon game,
      result = result game,
      game_createdAt = game_createdAt game\<rparr>"

text \<open>
  Farm cats have no helper of their own: \<^verbatim>\<open>getFarmData\<close> and \<^verbatim>\<open>getFarmCat\<close> build the
  same object literal in place.
\<close>

definition farmCatObject :: "(objectId, objectId, 'n) FarmCat \<Rightarrow> (number, number, 'n) FarmCat" where
  "farmCatObject cat =
     \<lparr>cat_id = idOfObjectId (cat_id cat),
      cat_userId = parseInt (cat_userId cat),
      catId = catId cat,
      level = level cat,
      production = production cat,
      lastClaimed = lastClaimed cat,
      cat_createdAt = cat_createdAt cat\<rparr>"

section \<open>The methods of \<^verbatim>\<open>MongoStorage\<close>\<close>

text \<open>
  A method takes the environment of the call and the state of the storage. A method that
  writes returns its result with the new state; \<open>Inl\<close> is an error thrown to the caller,
  \<open>Inr\<close> a result returned. An error caught inside the method (the \<^verbatim>\<open>catch\<close> blocks log
  it) shows as the value the \<^verbatim>\<open>catch\<close> block returns.
\<close>

subsection \<open>Users\<close>

definition getUser :: "env \<Rightarrow> 'n storage \<Rightarrow> number \<Rightarrow> error + number User option" where
  "getUser e s ident =
     (if \<not> isConnected s then Inr None
      else case objectIdOfNumber ident of
        None \<Rightarrow> Inr None
      | Some k \<Rightarrow>
          if fails e 0 then Inr None
          else Inr (map_option convertMongoUser (findOne (\<lambda>u. user_id u = k) (users s))))"

definition getUserByUsername :: "env \<Rightarrow> 'n storage \<Rightarrow> string \<Rightarrow> error + number User option" where
  "getUserByUsername e s name =
     (if \<not> isConnected s then Inr None
      else if fails e 0 then Inr None
      else Inr (map_option convertMongoUser (findOne (\<lambda>u. username u = name) (users s))))"

text \<open>
  The object given to \<^verbatim>\<open>createUser\<close> has type \<^verbatim>\<open>any\<close>: besides the user name and the
  password it may carry balances and flags of its own.
\<close>

record InsertUser =
  new_username :: string
  new_password :: string
  new_balance :: "string option"
  new_meowBalance :: "string option"
  new_isAdmin :: "bool option"
  new_isBanned :: "bool option"

definition createUser ::
  "env \<Rightarrow> 'n storage \<Rightarrow> InsertUser \<Rightarrow> (error + number User) \<times> 'n storage" where
  "createUser e s insertUser =
     (if \<not> isConnected s then (Inl NotConnected, s)
      else if fails e 0 then (Inl HashError, s)
      else
        let hashedPassword = bcrypt_hash e (new_password insertUser) 10;
            user = \<lparr>user_id = newId e 0,
                    username = new_username insertUser,
                    password = hashedPassword,
                    balance = ''1000.00'',
                    meowBalance = ''0.00000000'',
                    isAdmin = False,
                    isBanned = False,
                    user_createdAt = clock e 0\<rparr>
        in case saveNew (fails e 1) user_id user (users s) of
             Inl err \<Rightarrow> (Inl err, s)
           | Inr docs \<Rightarrow> (Inr (convertMongoUser user), s\<lparr>users := docs\<rparr>))"

definition updateUserBalance ::
  "env \<Rightarrow> 'n storage \<Rightarrow> number \<Rightarrow> string \<Rightarrow> string option \<Rightarrow> (error + unit) \<times> 'n storage" where
  "updateUserBalance e s userId newBalance newMeowBalance =
     (if \<not> isConnected s then (Inr (), s)
      else case objectIdOfNumber userId of
        None \<Rightarrow> (Inr (), s)
      | Some k \<Rightarrow>
          if fails e 0 then (Inr (), s)
          else (Inr (),
                s\<lparr>users :=
                    updateFirst (\<lambda>u. user_id u = k)
                      (\<lambda>u. case newMeowBalance of
                              None \<Rightarrow> u\<lparr>balance := newBalance\<rparr>
                            | Some m \<Rightarrow> u\<lparr>balance := newBalance, meowBalance := m\<rparr>)
                      (users s)\<rparr>))"

definition getAllUsers :: "env \<Rightarrow> 'n storage \<Rightarrow> error + number User list" where
  "getAllUsers e s =
     (if \<not> isConnected s then Inr []
      else if fails e 0 then Inr []
      else Inr (map convertMongoUser (sortNewestFirst user_createdAt (users s))))"

definition banUser :: "env \<Rightarrow> 'n storage \<Rightarrow> number \<Rightarrow> bool \<Rightarrow> (error + unit) \<times> 'n storage" where
  "banUser e s userId banned =
     (if \<not> isConnected s then (Inr (), s)
      else case objectIdOfNumber userId of
        None \<Rightarrow> (Inr (), s)
      | Some k \<Rightarrow>
          if fails e 0 then (Inr (), s)
          else (Inr (),
                s\<lparr>users :=
                    updateFirst (\<lambda>u. user_id u = k) (\<lambda>u. u\<lparr>isBanned := banned\<rparr>) (users s)\<rparr>))"

subsection \<open>Deposits\<close>

record InsertDeposit =
  new_deposit_userId :: number
  new_deposit_amount :: string
  new_deposit_receiptUrl :: "string option"

definition createDeposit ::
  "env \<Rightarrow> 'n storage \<Rightarrow> InsertDeposit \<Rightarrow> (error + (number, number) Deposit) \<times> 'n storage" where
  "createDeposit e s deposit =
     (if \<not> isConnected s then (Inl NotConnected, s)
      else case objectIdOfNumber (new_deposit_userId deposit) of
        None \<Rightarrow> (Inl BSONError, s)
      | Some owner \<Rightarrow>
          let newDeposit = \<lparr>deposit_id = newId e 0,
                            deposit_userId = owner,
                            deposit_amount = new_deposit_amount deposit,
                            deposit_receiptUrl = orNull (new_deposit_receiptUrl deposit),
                            deposit_status = ''pending'',
                            deposit_createdAt = clock e 0\<rparr>
          in (case saveNew (fails e 0) deposit_id newDeposit (deposits s) of
                Inl err \<Rightarrow> (Inl err, s)
              | Inr docs \<Rightarrow> (Inr (convertMongoDeposit newDeposit), s\<lparr>deposits := docs\<rparr>)))"

definition getDeposits :: "env \<Rightarrow> 'n storage \<Rightarrow> error + (number, number) Deposit list" where
  "getDeposits e s =
     (if \<not> isConnected s then Inr []
      else if fails e 0 then Inr []
      else Inr (map convertMongoDeposit (sortNewestFirst deposit_createdAt (deposits s))))"

text \<open>
  \<^verbatim>\<open>findOneAndUpdate\<close> returns the document as it was before the update. The balance is
  then written through \<^verbatim>\<open>updateUserBalance\<close>, which is given the decimal reading of the
  owner reference and makes a document identifier of it again.
\<close>

definition updateDepositStatus ::
  "'n jsNumbers \<Rightarrow> env \<Rightarrow> 'n storage \<Rightarrow> number \<Rightarrow> string \<Rightarrow> (error + unit) \<times> 'n storage" where
  "updateDepositStatus J e s ident status =
     (if \<not> isConnected s then (Inr (), s)
      else case objectIdOfNumber ident of
        None \<Rightarrow> (Inr (), s)
      | Some k \<Rightarrow>
          if fails e 0 then (Inr (), s)
          else
            let deposit = findOne (\<lambda>d. deposit_id d = k) (deposits s);
                s1 = s\<lparr>deposits :=
                        updateFirst (\<lambda>d. deposit_id d = k)
                          (\<lambda>d. d\<lparr>deposit_status := status\<rparr>) (deposits s)\<rparr>
            in (case deposit of
                 None \<Rightarrow> (Inr (), s1)
               | Some d \<Rightarrow>
                   if status = ''approved'' then
                     (if fails e 1 then (Inr (), s1)
                      else (case findOne (\<lambda>u. user_id u = deposit_userId d) (users s1) of
                        None \<Rightarrow> (Inr (), s1)
                      | Some user \<Rightarrow>
                          (let newBalance =
                                 toFixed J
                                   (addition J (parseFloat J (balance user))
                                      (parseFloat J (deposit_amount d))) 2
                           in updateUserBalance (later 2 e) s1
                                (parseInt (deposit_userId d)) newBalance None)))
                   else (Inr (), s1)))"

subsection \<open>Withdrawals\<close>

record InsertWithdrawal =
  new_withdrawal_userId :: number
  new_withdrawal_amount :: string
  new_withdrawal_platform :: string
  new_withdrawal_accountInfo :: string

definition createWithdrawal ::
  "env \<Rightarrow> 'n storage \<Rightarrow> InsertWithdrawal \<Rightarrow>
     (error + (number, number) Withdrawal) \<times> 'n storage" where
  "createWithdrawal e s withdrawal =
     (if \<not> isConnected s then (Inl NotConnected, s)
      else case objectIdOfNumber (new_withdrawal_userId withdrawal) of
        None \<Rightarrow> (Inl BSONError, s)
      | Some owner \<Rightarrow>
          let newWithdrawal = \<lparr>withdrawal_id = newId e 0,
                               withdrawal_userId = owner,
                               withdrawal_amount = new_withdrawal_amount withdrawal,
                               withdrawal_platform = new_withdrawal_platform withdrawal,
                               withdrawal_accountInfo = new_withdrawal_accountInfo withdrawal,
                               withdrawal_status = ''pending'',
                               withdrawal_createdAt = clock e 0\<rparr>
          in (case saveNew (fails e 0) withdrawal_id newWithdrawal (withdrawals s) of
                Inl err \<Rightarrow> (Inl err, s)
              | Inr docs \<Rightarrow>
                  (Inr (convertMongoWithdrawal newWithdrawal), s\<lparr>withdrawals := docs\<rparr>)))"

definition getWithdrawal ::
  "env \<Rightarrow> 'n storage \<Rightarrow> number \<Rightarrow> error + (number, number) Withdrawal option" where
  "getWithdrawal e s ident =
     (if \<not> isConnected s then Inr None
      else case objectIdOfNumber ident of
        None \<Rightarrow> Inr None
      | Some k \<Rightarrow>
          if fails e 0 then Inr None
          else Inr (map_option convertMongoWithdrawal
                      (findOne (\<lambda>w. withdrawal_id w = k) (withdrawals s))))"

definition getWithdrawals :: "env \<Rightarrow> 'n storage \<Rightarrow> error + (number, number) Withdrawal list" where
  "getWithdrawals e s =
     (if \<not> isConnected s then Inr []
      else if fails e 0 then Inr []
      else Inr (map convertMongoWithdrawal
                  (sortNewestFirst withdrawal_createdAt (withdrawals s))))"

definition getUserWithdrawals ::
  "env \<Rightarrow> 'n storage \<Rightarrow> number \<Rightarrow> error + (number, number) Withdrawal list" where
  "getUserWithdrawals e s userId =
     (if \<not> isConnected s then Inr []
      else case objectIdOfNumber userId of
        None \<Rightarrow> Inr []
      | Some owner \<Rightarrow>
          if fails e 0 then Inr []
          else Inr (map convertMongoWithdrawal
                      (sortNewestFirst withdrawal_createdAt
                         (filter (\<lambda>w. withdrawal_userId w = owner) (withdrawals s)))))"

definition updateWithdrawalStatus ::
  "env \<Rightarrow> 'n storage \<Rightarrow> number \<Rightarrow> string \<Rightarrow> (error + unit) \<times> 'n storage" where
  "updateWithdrawalStatus e s ident status =
     (if \<not> isConnected s then (Inr (), s)
      else case objectIdOfNumber ident of
        None \<Rightarrow> (Inr (), s)
      | Some k \<Rightarrow>
          if fails e 0 then (Inr (), s)
          else (Inr (),
                s\<lparr>withdrawals :=
                    updateFirst (\<lambda>w. withdrawal_id w = k)
                      (\<lambda>w. w\<lparr>withdrawal_status := status\<rparr>) (withdrawals s)\<rparr>))"

subsection \<open>Game history and the jackpot\<close>

record InsertGameHistory =
  new_game_userId :: number
  new_gameType :: string
  new_betAmount :: string
  new_winAmount :: "string option"
  new_meowWon :: "string option"
  new_result :: "string option"

text \<open>
  \<^verbatim>\<open>Jackpot.findOne()\<close> is the first document of the collection, and \<^verbatim>\<open>jackpot.save()\<close>
  writes that document back. The game is saved before the jackpot is read, so an error
  of the jackpot's query or write leaves the game in the store.
\<close>

definition createGameHistory ::
  "'n jsNumbers \<Rightarrow> env \<Rightarrow> 'n storage \<Rightarrow> InsertGameHistory \<Rightarrow>
     (error + (number, number) GameHistory) \<times> 'n storage" where
  "createGameHistory J e s game =
     (if \<not> isConnected s then (Inl NotConnected, s)
      else case objectIdOfNumber (new_game_userId game) of
        None \<Rightarrow> (Inl BSONError, s)
      | Some owner \<Rightarrow>
          let newGame = \<lparr>game_id = newId e 0,
                         game_userId = owner,
                         gameType = new_gameType game,
                         betAmount = new_betAmount game,
                         winAmount = orElse (new_winAmount game) ''0.00'',
                         meowWon = orElse (new_meowWon game) ''0.00000000'',
                         result = orNull (new_result game),
                         game_createdAt = clock e 0\<rparr>
          in (case saveNew (fails e 0) game_id newGame (gameHistory s) of
               Inl err \<Rightarrow> (Inl err, s)
             | Inr docs \<Rightarrow>
                 (let s1 = s\<lparr>gameHistory := docs\<rparr> in
                  if strictEquals J (parseFloat J (orElse (new_winAmount game) ''0''))
                       (ofInteger J 0)
                  then
                    (if fails e 1 then (Inl StoreError, s1)
                     else (case jackpots s1 of
                       [] \<Rightarrow> (Inr (convertMongoGameHistory newGame), s1)
                     | jackpot # others \<Rightarrow>
                         (let currentJackpot = parseFloat J (amount jackpot);
                              bet = parseFloat J (new_betAmount game);
                              jackpotIncrease = multiplication J bet (literal_0_01 J);
                              jackpot' = jackpot
                                \<lparr>amount := toFixed J (addition J currentJackpot jackpotIncrease) 8,
                                 updatedAt := clock e 1\<rparr>
                          in if fails e 2 then (Inl StoreError, s1)
                             else (Inr (convertMongoGameHistory newGame),
                                   s1\<lparr>jackpots := jackpot' # others\<rparr>))))
                  else (Inr (convertMongoGameHistory newGame), s1))))"

text \<open>
  The query of \<^verbatim>\<open>getGameHistory\<close> names an owner when the optional \<^verbatim>\<open>userId\<close> is truthy,
  and is empty (every game matches) otherwise.
\<close>

definition getGameHistory ::
  "env \<Rightarrow> 'n storage \<Rightarrow> number option \<Rightarrow> error + (number, number) GameHistory list" where
  "getGameHistory e s userId =
     (if \<not> isConnected s then Inr []
      else case (case userId of
                   None \<Rightarrow> Some None
                 | Some n \<Rightarrow>
                     if truthy n then map_option Some (objectIdOfNumber n) else Some None) of
        None \<Rightarrow> Inr []
      | Some query \<Rightarrow>
          if fails e 0 then Inr []
          else Inr (map convertMongoGameHistory
                      (sortNewestFirst game_createdAt
                         (filter (\<lambda>g. case query of
                                         None \<Rightarrow> True
                                       | Some owner \<Rightarrow> game_userId g = owner)
                            (gameHistory s)))))"

definition defaultJackpot :: "date \<Rightarrow> (number, number) Jackpot" where
  "defaultJackpot t =
     \<lparr>jackpot_id = Number 1,
      amount = ''0.10000000'',
      lastWinnerId = None,
      lastWonAt = None,
      updatedAt = t\<rparr>"

definition getJackpot ::
  "env \<Rightarrow> 'n storage \<Rightarrow> (error + (number, number) Jackpot) \<times> 'n storage" where
  "getJackpot e s =
     (if \<not> isConnected s then (Inr (defaultJackpot (clock e 0)), s)
      else if fails e 0 then (Inr (defaultJackpot (clock e 0)), s)
      else
        let made = \<lparr>jackpot_id = newId e 0,
                      amount = ''0.10000000'',
                      lastWinnerId = None,
                      lastWonAt = None,
                      updatedAt = clock e 0\<rparr>
        in case (case jackpots s of
                   [] \<Rightarrow> map_sum (\<lambda>err. err) (\<lambda>docs. (made, docs))
                          (saveNew (fails e 1) jackpot_id made (jackpots s))
                 | found # others \<Rightarrow> Inr (found, jackpots s)) of
             Inl err \<Rightarrow> (Inr (defaultJackpot (clock e 1)), s)
           | Inr (jackpot, docs) \<Rightarrow>
               (Inr \<lparr>jackpot_id = Number 1,
                     amount = amount jackpot,
                     lastWinnerId = map_option parseInt (lastWinnerId jackpot),
                     lastWonAt = lastWonAt jackpot,
                     updatedAt = updatedAt jackpot\<rparr>,
                s\<lparr>jackpots := docs\<rparr>))"

text \<open>
  \<^verbatim>\<open>findOneAndUpdate({}, updateData, { upsert: true })\<close>: the first jackpot is updated, and
  when there is none a document is made of the update.
\<close>

definition updateJackpot ::
  "env \<Rightarrow> 'n storage \<Rightarrow> string \<Rightarrow> number option \<Rightarrow> (error + unit) \<times> 'n storage" where
  "updateJackpot e s newAmount winnerId =
     (if \<not> isConnected s then (Inr (), s)
      else case (case winnerId of
                   None \<Rightarrow> Some None
                 | Some n \<Rightarrow>
                     if truthy n then map_option Some (objectIdOfNumber n) else Some None) of
        None \<Rightarrow> (Inr (), s)
      | Some winner \<Rightarrow>
          (let updateData =
                 (\<lambda>j. case winner of
                        None \<Rightarrow> j\<lparr>amount := newAmount, updatedAt := clock e 0\<rparr>
                      | Some w \<Rightarrow>
                          j\<lparr>amount := newAmount, updatedAt := clock e 0,
                            lastWinnerId := Some w, lastWonAt := Some (clock e 1)\<rparr>)
           in if fails e 0 then (Inr (), s)
              else (case jackpots s of
                [] \<Rightarrow>
                  (Inr (),
                   s\<lparr>jackpots :=
                       [updateData \<lparr>jackpot_id = newId e 0, amount = newAmount,
                                     lastWinnerId = None, lastWonAt = None,
                                     updatedAt = clock e 0\<rparr>]\<rparr>)
              | found # others \<Rightarrow> (Inr (), s\<lparr>jackpots := updateData found # others\<rparr>))))"

subsection \<open>The farm\<close>

definition emptyFarm :: "'n jsNumbers \<Rightarrow> 'n FarmData" where
  "emptyFarm J = \<lparr>cats = [], totalProduction = ofInteger J 0, unclaimedMeow = ''0.00000000''\<rparr>"

text \<open>
  \<^verbatim>\<open>cats.reduce((sum, cat) => sum + cat.production, 0)\<close> adds from the left, starting
  from the literal \<^verbatim>\<open>0\<close>.
\<close>

definition getFarmData :: "'n jsNumbers \<Rightarrow> env \<Rightarrow> 'n storage \<Rightarrow> number \<Rightarrow> error + 'n FarmData" where
  "getFarmData J e s userId =
     (if \<not> isConnected s then Inr (emptyFarm J)
      else case objectIdOfNumber userId of
        None \<Rightarrow> Inr (emptyFarm J)
      | Some owner \<Rightarrow>
          if fails e 0 then Inr (emptyFarm J)
          else
            let found = filter (\<lambda>cat. cat_userId cat = owner) (farmCats s);
                total = foldl (\<lambda>sum cat. addition J sum (production cat)) (ofInteger J 0) found
            in Inr \<lparr>cats = map farmCatObject found,
                     totalProduction = total,
                     unclaimedMeow = ''0.00000000''\<rparr>)"

record 'n InsertFarmCat =
  new_cat_userId :: number
  new_catId :: string
  new_production :: 'n

definition createFarmCat ::
  "'n jsNumbers \<Rightarrow> env \<Rightarrow> 'n storage \<Rightarrow> 'n InsertFarmCat \<Rightarrow>
     (error + (number, number, 'n) FarmCat option) \<times> 'n storage" where
  "createFarmCat J e s data =
     (if \<not> isConnected s then (Inr None, s)
      else case objectIdOfNumber (new_cat_userId data) of
        None \<Rightarrow> (Inr None, s)
      | Some owner \<Rightarrow>
          let farmCat = \<lparr>cat_id = newId e 0,
                         cat_userId = owner,
                         catId = new_catId data,
                         level = ofInteger J 1,
                         production = new_production data,
                         lastClaimed = clock e 0,
                         cat_createdAt = clock e 1\<rparr>
          in (case saveNew (fails e 0) cat_id farmCat (farmCats s) of
                Inl err \<Rightarrow> (Inr None, s)
              | Inr docs \<Rightarrow>
                  (Inr (Some ((farmCatObject farmCat)\<lparr>cat_userId := new_cat_userId data\<rparr>)),
                   s\<lparr>farmCats := docs\<rparr>)))"

definition getFarmCat ::
  "env \<Rightarrow> 'n storage \<Rightarrow> number \<Rightarrow> error + (number, number, 'n) FarmCat option" where
  "getFarmCat e s ident =
     (if \<not> isConnected s then Inr None
      else case objectIdOfNumber ident of
        None \<Rightarrow> Inr None
      | Some k \<Rightarrow>
          if fails e 0 then Inr None
          else Inr (map_option farmCatObject (findOne (\<lambda>cat. cat_id cat = k) (farmCats s))))"

definition upgradeFarmCat ::
  "env \<Rightarrow> 'n storage \<Rightarrow> number \<Rightarrow> 'n \<Rightarrow> 'n \<Rightarrow> (error + unit) \<times> 'n storage" where
  "upgradeFarmCat e s ident newLevel newProduction =
     (if \<not> isConnected s then (Inr (), s)
      else case objectIdOfNumber ident of
        None \<Rightarrow> (Inr (), s)
      | Some k \<Rightarrow>
          if fails e 0 then (Inr (), s)
          else (Inr (),
                s\<lparr>farmCats :=
                    updateFirst (\<lambda>cat. cat_id cat = k)
                      (\<lambda>cat. cat\<lparr>level := newLevel, production := newProduction\<rparr>)
                      (farmCats s)\<rparr>))"

definition claimFarmRewards :: "env \<Rightarrow> 'n storage \<Rightarrow> number \<Rightarrow> (error + unit) \<times> 'n storage" where
  "claimFarmRewards e s userId =
     (if \<not> isConnected s then (Inr (), s)
      else case objectIdOfNumber userId of
        None \<Rightarrow> (Inr (), s)
      | Some owner \<Rightarrow>
          if fails e 0 then (Inr (), s)
          else (Inr (),
                s\<lparr>farmCats :=
                    updateMany (\<lambda>cat. cat_userId cat = owner)
                      (\<lambda>cat. cat\<lparr>lastClaimed := clock e 0\<rparr>) (farmCats s)\<rparr>))"

subsection \<open>Initialisation\<close>

text \<open>
  \<^verbatim>\<open>initializeDefaultData\<close> makes the jackpot and the administrator when they are missing;
  an error anywhere in it is logged and ends it. \<^verbatim>\<open>init\<close> takes the outcome of
  \<^verbatim>\<open>connectToMongoDB()\<close>: \<open>None\<close> when it throws.
\<close>

definition initializeDefaultData :: "env \<Rightarrow> 'n storage \<Rightarrow> 'n storage" where
  "initializeDefaultData e s =
     (if fails e 0 then s
      else case (if jackpots s = []
                 then saveNew (fails e 1) jackpot_id
                        \<lparr>jackpot_id = newId e 0, amount = ''0.10000000'',
                         lastWinnerId = None, lastWonAt = None, updatedAt = clock e 0\<rparr>
                        (jackpots s)
                 else Inr (jackpots s)) of
        Inl err \<Rightarrow> s
      | Inr docs \<Rightarrow>
          (let s1 = s\<lparr>jackpots := docs\<rparr> in
           if fails e 2 then s1
           else (case findOne (\<lambda>u. username u = ''admin'') (users s1) of
             Some adminUser \<Rightarrow> s1
           | None \<Rightarrow>
               if fails e 3 then s1
               else (case saveNew (fails e 4) user_id
                            \<lparr>user_id = newId e (if jackpots s = [] then 1 else 0),
                             username = ''admin'',
                             password = bcrypt_hash e ''admin1234'' 10,
                             balance = ''10000.00'',
                             meowBalance = ''1.00000000'',
                             isAdmin = True,
                             isBanned = False,
                             user_createdAt = clock e (if jackpots s = [] then 1 else 0)\<rparr>
                            (users s1) of
                 Inl err \<Rightarrow> s1
               | Inr docs' \<Rightarrow> s1\<lparr>users := docs'\<rparr>))))"

definition init :: "env \<Rightarrow> bool option \<Rightarrow> 'n storage \<Rightarrow> 'n storage" where
  "init e outcome s =
     (case outcome of
        None \<Rightarrow> s\<lparr>isConnected := False\<rparr>
      | Some c \<Rightarrow>
          if c then initializeDefaultData (later 1 e) (s\<lparr>isConnected := True\<rparr>)
          else s\<lparr>isConnected := False\<rparr>)"

section \<open>The background music manager\<close>

text \<open>
  The audio element, as far as the manager reads and writes it, and the manager's fields.
  The volume is a real number: \<^verbatim>\<open>Math.min\<close> and \<^verbatim>\<open>Math.max\<close> return one of their
  arguments, so no rounding takes part. Of the element the model keeps that a new one is
  paused at full volume, that assigning \<^verbatim>\<open>src\<close> starts loading anew and leaves the element
  paused, and that assigning a \<^verbatim>\<open>volume\<close> outside the interval from 0 to 1 throws.
\<close>

record HTMLAudioElement =
  audio_src :: string
  audio_volume :: real
  audio_preload :: string
  audio_paused :: bool

record BackgroundMusicManager =
  audio :: "HTMLAudioElement option"
  enabled :: bool
  volume :: real
  isInitialized :: bool
  currentTrackIndex :: nat
  availableTracks :: "string list"
  currentTrackName :: string

definition newBackgroundMusicManager :: BackgroundMusicManager where
  "newBackgroundMusicManager =
     \<lparr>audio = None, enabled = True, volume = 0.5, isInitialized = False,
      currentTrackIndex = 0, availableTracks = [], currentTrackName = []\<rparr>"

definition newAudio :: HTMLAudioElement where
  "newAudio = \<lparr>audio_src = [], audio_volume = 1, audio_preload = [], audio_paused = True\<rparr>"

text \<open>
  \<^verbatim>\<open>detectAvailableTracks\<close> asks for \<^verbatim>\<open>bgm.mp3\<close> and \<^verbatim>\<open>bgm1.mp3\<close> to \<^verbatim>\<open>bgm10.mp3\<close>;
  \<open>found\<close> says of a name whether the fetch answered with \<^verbatim>\<open>ok\<close>.
\<close>

definition detectAvailableTracks :: "(string \<Rightarrow> bool) \<Rightarrow> string list" where
  "detectAvailableTracks found =
     filter found
       (''bgm.mp3'' # map (\<lambda>i. ''bgm'' @ decimal i @ ''.mp3'') [1 ..< 11])"

definition loadCurrentTrack :: "BackgroundMusicManager \<Rightarrow> BackgroundMusicManager" where
  "loadCurrentTrack m =
     (case audio m of
        None \<Rightarrow> m
      | Some a \<Rightarrow>
          if availableTracks m = [] then m
          else
            let trackName =
                  (if currentTrackIndex m < length (availableTracks m)
                   then availableTracks m ! currentTrackIndex m else ''undefined'')
            in m\<lparr>audio := Some (a\<lparr>audio_src := ''/sounds/'' @ trackName,
                                    audio_paused := True\<rparr>),
                 currentTrackName := trackName\<rparr>)"

text \<open>
  The body of \<^verbatim>\<open>initializeAudio\<close> stands in a \<^verbatim>\<open>try\<close> block: when the assignment of the
  volume throws, the rest of the body is skipped and the error is logged.
\<close>

definition initializeAudio ::
  "(string \<Rightarrow> bool) \<Rightarrow> BackgroundMusicManager \<Rightarrow> BackgroundMusicManager" where
  "initializeAudio found m =
     (if isInitialized m then m
      else
        let m1 = m\<lparr>availableTracks := detectAvailableTracks found\<rparr> in
        if availableTracks m1 = [] then m1
        else
          let m2 = loadCurrentTrack (m1\<lparr>audio := Some newAudio\<rparr>) in
          if 0 \<le> volume m2 \<and> volume m2 \<le> 1 then
            m2\<lparr>audio := map_option
                           (\<lambda>a. a\<lparr>audio_volume := volume m2, audio_preload := ''auto''\<rparr>)
                           (audio m2),
               isInitialized := True\<rparr>
          else m2)"

text \<open>
  \<^verbatim>\<open>play\<close> and \<^verbatim>\<open>playNextTrack\<close> call each other: a track that fails to play makes the
  manager try the next one. The list gives the outcomes of the successive
  \<^verbatim>\<open>audio.play()\<close> promises, \<open>True\<close> for one that resolves; past its end they resolve.
\<close>

fun play :: "bool list \<Rightarrow> BackgroundMusicManager \<Rightarrow> BackgroundMusicManager"
  and playNextTrack :: "bool list \<Rightarrow> BackgroundMusicManager \<Rightarrow> BackgroundMusicManager" where
  "play [] m =
     (case audio m of
        None \<Rightarrow> m
      | Some a \<Rightarrow>
          if \<not> enabled m then m
          else if audio_paused a then m\<lparr>audio := Some (a\<lparr>audio_paused := False\<rparr>)\<rparr>
          else m)"
| "play (resolves # outcomes) m =
     (case audio m of
        None \<Rightarrow> m
      | Some a \<Rightarrow>
          if \<not> enabled m then m
          else if audio_paused a then
            (if resolves then m\<lparr>audio := Some (a\<lparr>audio_paused := False\<rparr>)\<rparr>
             else playNextTrack outcomes m)
          else m)"
| "playNextTrack outcomes m =
     (if availableTracks m = [] then m
      else
        let m1 = loadCurrentTrack
                   (m\<lparr>currentTrackIndex :=
                        (currentTrackIndex m + 1) mod length (availableTracks m)\<rparr>)
        in if enabled m1 then play outcomes m1 else m1)"

declare playNextTrack.simps [simp del]

definition pause :: "BackgroundMusicManager \<Rightarrow> BackgroundMusicManager" where
  "pause m =
     (case audio m of
        None \<Rightarrow> m
      | Some a \<Rightarrow> if \<not> audio_paused a then m\<lparr>audio := Some (a\<lparr>audio_paused := True\<rparr>)\<rparr> else m)"

definition setVolume :: "real \<Rightarrow> BackgroundMusicManager \<Rightarrow> BackgroundMusicManager" where
  "setVolume v m =
     (let m1 = m\<lparr>volume := min 1 (max 0 v)\<rparr> in
      case audio m1 of
        None \<Rightarrow> m1
      | Some a \<Rightarrow> m1\<lparr>audio := Some (a\<lparr>audio_volume := volume m1\<rparr>)\<rparr>)"

definition getVolume :: "BackgroundMusicManager \<Rightarrow> real" where
  "getVolume m = volume m"

definition setEnabled :: "bool list \<Rightarrow> bool \<Rightarrow> BackgroundMusicManager \<Rightarrow> BackgroundMusicManager" where
  "setEnabled outcomes b m =
     (let m1 = m\<lparr>enabled := b\<rparr> in if b then play outcomes m1 else pause m1)"

definition isEnabled :: "BackgroundMusicManager \<Rightarrow> bool" where
  "isEnabled m = enabled m"

definition isPlaying :: "BackgroundMusicManager \<Rightarrow> bool" where
  "isPlaying m = (case audio m of None \<Rightarrow> False | Some a \<Rightarrow> \<not> audio_paused a)"

definition getCurrentTrackName :: "BackgroundMusicManager \<Rightarrow> string" where
  "getCurrentTrackName m = currentTrackName m"

definition getAvailableTracksCount :: "BackgroundMusicManager \<Rightarrow> nat" where
  "getAvailableTracksCount m = length (availableTracks m)"

text \<open>
  Everything that can happen to a manager after its construction: the asynchronous
  \<^verbatim>\<open>initializeAudio\<close> the constructor starts, a call of a public method, and the audio
  element's \<^verbatim>\<open>ended\<close> and \<^verbatim>\<open>error\<close> events, both of which play the next track.
\<close>

datatype event =
    InitializeAudio "string \<Rightarrow> bool"
  | Play "bool list"
  | Pause
  | SetVolume real
  | SetEnabled "bool list" bool
  | Ended "bool list"
  | AudioError "bool list"

fun step :: "BackgroundMusicManager \<Rightarrow> event \<Rightarrow> BackgroundMusicManager" where
  "step m (InitializeAudio found) = initializeAudio found m"
| "step m (Play outcomes) = play outcomes m"
| "step m Pause = pause m"
| "step m (SetVolume v) = setVolume v m"
| "step m (SetEnabled outcomes b) = setEnabled outcomes b m"
| "step m (Ended outcomes) = playNextTrack outcomes m"
| "step m (AudioError outcomes) = playNextTrack outcomes m"

definition run :: "event list \<Rightarrow> BackgroundMusicManager" where
  "run events = foldl step newBackgroundMusicManager events"

section \<open>Notions the properties are stated with\<close>

text \<open>
  The base-16 integer value of a string of hexadecimal characters: each character counts
  its digit times the power of 16 that its place from the right gives.
\<close>

fun base16Value :: "string \<Rightarrow> nat" where
  "base16Value [] = 0"
| "base16Value (c # cs) = digitOf c * 16 ^ length cs + base16Value cs"

text \<open>The three values of the status enum.\<close>

definition isStatus :: "string \<Rightarrow> bool" where
  "isStatus st = (st = ''pending'' \<or> st = ''approved'' \<or> st = ''rejected'')"

subsection \<open>An arithmetic to run examples with\<close>

text \<open>
  Exact decimal arithmetic: a number is an integer mantissa with a count of decimal
  places, or not a number. It rounds nowhere but in \<^verbatim>\<open>toFixed\<close> (half away from zero),
  so it is not the runtime's binary arithmetic; it serves to evaluate the methods on
  concrete amounts.
\<close>

datatype decimalNumber = NotANumber | Decimal int nat

definition isDecimalDigit :: "char \<Rightarrow> bool" where
  "isDecimalDigit c = isDigitOf 10 c"

definition digitsValue :: "string \<Rightarrow> nat" where
  "digitsValue ds = foldl (\<lambda>a c. a * 10 + digitOf c) 0 ds"

definition parseUnsigned :: "string \<Rightarrow> decimalNumber" where
  "parseUnsigned s =
     (let whole = takeWhile isDecimalDigit s;
          fraction = (case dropWhile isDecimalDigit s of
                        [] \<Rightarrow> []
                      | c # rest \<Rightarrow> if c = CHR ''.'' then takeWhile isDecimalDigit rest else [])
      in if whole = [] \<and> fraction = [] then NotANumber
         else Decimal (int (digitsValue (whole @ fraction))) (length fraction))"

definition decimalParseFloat :: "string \<Rightarrow> decimalNumber" where
  "decimalParseFloat s =
     (case s of
        [] \<Rightarrow> NotANumber
      | c # rest \<Rightarrow>
          if c = CHR ''-'' then
            (case parseUnsigned rest of
               NotANumber \<Rightarrow> NotANumber
             | Decimal m k \<Rightarrow> Decimal (- m) k)
          else parseUnsigned s)"

definition decimalAdd :: "decimalNumber \<Rightarrow> decimalNumber \<Rightarrow> decimalNumber" where
  "decimalAdd x y =
     (case (x, y) of
        (Decimal m k, Decimal n l) \<Rightarrow> Decimal (m * 10 ^ (max k l - k) + n * 10 ^ (max k l - l)) (max k l)
      | _ \<Rightarrow> NotANumber)"

definition decimalMultiply :: "decimalNumber \<Rightarrow> decimalNumber \<Rightarrow> decimalNumber" where
  "decimalMultiply x y =
     (case (x, y) of
        (Decimal m k, Decimal n l) \<Rightarrow> Decimal (m * n) (k + l)
      | _ \<Rightarrow> NotANumber)"

definition decimalEquals :: "decimalNumber \<Rightarrow> decimalNumber \<Rightarrow> bool" where
  "decimalEquals x y =
     (case (x, y) of
        (Decimal m k, Decimal n l) \<Rightarrow> m * 10 ^ l = n * 10 ^ k
      | _ \<Rightarrow> False)"

definition decimalToFixed :: "decimalNumber \<Rightarrow> nat \<Rightarrow> string" where
  "decimalToFixed x d =
     (case x of
        NotANumber \<Rightarrow> ''NaN''
      | Decimal m k \<Rightarrow>
          let a = nat \<bar>m\<bar>;
              scaled = (if k \<le> d then a * 10 ^ (d - k)
                        else (a + 5 * 10 ^ (k - d - 1)) div 10 ^ (k - d));
              ds = padStart (d + 1) (CHR ''0'') (decimal scaled);
              body = (if d = 0 then ds
                      else take (length ds - d) ds @ CHR ''.'' # drop (length ds - d) ds)
          in if m < 0 then CHR ''-'' # body else body)"

definition decimalArithmetic :: "decimalNumber jsNumbers" where
  "decimalArithmetic =
     \<lparr>parseFloat = decimalParseFloat,
      addition = decimalAdd,
      multiplication = decimalMultiply,
      ofInteger = (\<lambda>i. Decimal i 0),
      literal_0_01 = Decimal 1 2,
      strictEquals = decimalEquals,
      toFixed = decimalToFixed\<rparr>"

subsection \<open>A store to run examples on\<close>

text \<open>
  Two users, a deposit and three farm cats of the first, a withdrawal and one farm cat of
  the second, and the jackpot. The calls of the examples meet no rejected operation, and
  the driver hands out two fresh identifiers.
\<close>

definition alice :: "objectId User" where
  "alice =
     \<lparr>user_id = ''000000000000000000000010'', username = ''alice'',
      password = ''$2b$10$ecila'', balance = ''100.00'', meowBalance = ''0.00000000'',
      isAdmin = False, isBanned = False, user_createdAt = 1000\<rparr>"

definition bob :: "objectId User" where
  "bob =
     \<lparr>user_id = ''000000000000000000000016'', username = ''bob'',
      password = ''$2b$10$bob'', balance = ''20.50'', meowBalance = ''0.00000000'',
      isAdmin = False, isBanned = False, user_createdAt = 2000\<rparr>"

definition aliceDeposit :: "(objectId, objectId) Deposit" where
  "aliceDeposit =
     \<lparr>deposit_id = ''000000000000000000000001'',
      deposit_userId = ''000000000000000000000010'',
      deposit_amount = ''50.00'', deposit_receiptUrl = None,
      deposit_status = ''pending'', deposit_createdAt = 3000\<rparr>"

definition bobWithdrawal :: "(objectId, objectId) Withdrawal" where
  "bobWithdrawal =
     \<lparr>withdrawal_id = ''000000000000000000000002'',
      withdrawal_userId = ''000000000000000000000016'',
      withdrawal_amount = ''5.00'', withdrawal_platform = ''bank'',
      withdrawal_accountInfo = ''12345'',
      withdrawal_status = ''pending'', withdrawal_createdAt = 4000\<rparr>"

definition theJackpot :: "(objectId, objectId) Jackpot" where
  "theJackpot =
     \<lparr>jackpot_id = ''000000000000000000000003'', amount = ''0.10000000'',
      lastWinnerId = None, lastWonAt = None, updatedAt = 500\<rparr>"

definition farmCat :: "objectId \<Rightarrow> objectId \<Rightarrow> int \<Rightarrow> (objectId, objectId, decimalNumber) FarmCat" where
  "farmCat ident owner tenths =
     \<lparr>cat_id = ident, cat_userId = owner, catId = ''tabby'', level = Decimal 1 0,
      production = Decimal tenths 1, lastClaimed = 5000, cat_createdAt = 5000\<rparr>"

definition exampleStorage :: "decimalNumber storage" where
  "exampleStorage =
     \<lparr>isConnected = True,
      users = [alice, bob],
      deposits = [aliceDeposit],
      withdrawals = [bobWithdrawal],
      gameHistory = [],
      jackpots = [theJackpot],
      farmCats =
        [farmCat ''000000000000000000000004'' ''000000000000000000000010'' 5,
         farmCat ''000000000000000000000005'' ''000000000000000000000016'' 20,
         farmCat ''000000000000000000000006'' ''000000000000000000000010'' 7]\<rparr>"

definition exampleEnv :: env where
  "exampleEnv =
     \<lparr>clock = (\<lambda>k. 1700000000000 + int k),
      newId = (\<lambda>k. if k = 0 then ''65a1b2c3d4e5f6a7b8c9d0e1'' else ''65a1b2c3d4e5f6a7b8c9d0e2''),
      fails = (\<lambda>k. False),
      bcrypt_hash = (\<lambda>pw rounds. ''$2b$10$'' @ rev pw)\<rparr>"

text \<open>A game that was lost (no win amount is given) and the same game won.\<close>

definition lostGame :: InsertGameHistory where
  "lostGame =
     \<lparr>new_game_userId = Number 10, new_gameType = ''dice'', new_betAmount = ''50.00'',
      new_winAmount = None, new_meowWon = None, new_result = Some ''lose''\<rparr>"

definition wonGame :: InsertGameHistory where
  "wonGame = lostGame\<lparr>new_winAmount := Some ''75.00'', new_result := Some ''win''\<rparr>"

text \<open>
  A new user whose input carries balances and flags of its own, an environment in which
  every awaited operation is rejected, one in which only the second is, and the example
  store while the storage is not connected.
\<close>

definition carol :: InsertUser where
  "carol =
     \<lparr>new_username = ''carol'', new_password = ''secret'', new_balance = Some ''999999.00'',
      new_meowBalance = Some ''5.00000000'', new_isAdmin = Some True, new_isBanned = Some True\<rparr>"

definition failingEnv :: env where
  "failingEnv = exampleEnv\<lparr>fails := (\<lambda>k. True)\<rparr>"

definition saveFailsEnv :: env where
  "saveFailsEnv = exampleEnv\<lparr>fails := (\<lambda>k. k = 1)\<rparr>"

definition offlineStorage :: "decimalNumber storage" where
  "offlineStorage = exampleStorage\<lparr>isConnected := False\<rparr>"

text \<open>
  The call that follows the creation of a user gets the driver's next identifier. The
  last store holds a deposit whose owner reference is the document identifier of its
  owner, as the driver made it, and a second user.
\<close>

definition secondEnv :: env where
  "secondEnv = exampleEnv\<lparr>newId := (\<lambda>k. ''65a1b2c3d4e5f6a7b8c9d0e2'')\<rparr>"

definition carolDeposit :: InsertDeposit where
  "carolDeposit =
     \<lparr>new_deposit_userId = Number 13226209, new_deposit_amount = ''50.00'',
      new_deposit_receiptUrl = None\<rparr>"

definition dave :: "objectId User" where
  "dave =
     \<lparr>user_id = ''65a1b2c3d4e5f6a7b8c9d0e1'', username = ''dave'',
      password = ''$2b$10$evad'', balance = ''100.00'', meowBalance = ''0.00000000'',
      isAdmin = False, isBanned = False, user_createdAt = 1000\<rparr>"

definition erin :: "objectId User" where
  "erin =
     \<lparr>user_id = ''000000000000000000000065'', username = ''erin'',
      password = ''$2b$10$nire'', balance = ''7.00'', meowBalance = ''0.00000000'',
      isAdmin = False, isBanned = False, user_createdAt = 2000\<rparr>"

definition daveDeposit :: "(objectId, objectId) Deposit" where
  "daveDeposit =
     \<lparr>deposit_id = ''000000000000000000000001'',
      deposit_userId = ''65a1b2c3d4e5f6a7b8c9d0e1'',
      deposit_amount = ''50.00'', deposit_receiptUrl = None,
      deposit_status = ''pending'', deposit_createdAt = 3000\<rparr>"

definition referringStorage :: "decimalNumber storage" where
  "referringStorage =
     \<lparr>isConnected = True, users = [dave, erin], deposits = [daveDeposit], withdrawals = [],
      gameHistory = [], jackpots = [], farmCats = []\<rparr>"

text \<open>
  The documents that \<^verbatim>\<open>createUser\<close> and then \<^verbatim>\<open>createDeposit\<close> add to the example store,
  and the store after each.
\<close>

definition carolDocument :: "objectId User" where
  "carolDocument =
     \<lparr>user_id = ''65a1b2c3d4e5f6a7b8c9d0e1'', username = ''carol'',
      password = ''$2b$10$terces'', balance = ''1000.00'', meowBalance = ''0.00000000'',
      isAdmin = False, isBanned = False, user_createdAt = 1700000000000\<rparr>"

definition storageWithCarol :: "decimalNumber storage" where
  "storageWithCarol = exampleStorage\<lparr>users := [alice, bob, carolDocument]\<rparr>"

definition carolDepositDocument :: "(objectId, objectId) Deposit" where
  "carolDepositDocument =
     \<lparr>deposit_id = ''65a1b2c3d4e5f6a7b8c9d0e2'',
      deposit_userId = ''000000000000000013226209'',
      deposit_amount = ''50.00'', deposit_receiptUrl = None,
      deposit_status = ''pending'', deposit_createdAt = 1700000000000\<rparr>"

definition storageWithDeposit :: "decimalNumber storage" where
  "storageWithDeposit = storageWithCarol\<lparr>deposits := [aliceDeposit, carolDepositDocument]\<rparr>"

section \<open>Properties of the background music manager\<close>

lemma volume_loadCurrentTrack: "volume (loadCurrentTrack m) = volume m"
  by (simp add: loadCurrentTrack_def Let_def split: option.splits)

lemma volume_play_playNextTrack:
  "volume (play outcomes m) = volume m"
  "volume (playNextTrack outcomes m) = volume m"
  by (induction outcomes m and outcomes m rule: play_playNextTrack.induct)
     (auto simp: Let_def volume_loadCurrentTrack playNextTrack.simps split: option.splits)

lemma volume_pause: "volume (pause m) = volume m"
  by (simp add: pause_def split: option.splits)

lemma volume_initializeAudio: "volume (initializeAudio found m) = volume m"
  by (simp add: initializeAudio_def Let_def volume_loadCurrentTrack)

lemma volume_setEnabled: "volume (setEnabled outcomes b m) = volume m"
  by (simp add: setEnabled_def Let_def volume_play_playNextTrack volume_pause)

lemma volume_setVolume: "volume (setVolume v m) = min 1 (max 0 v)"
  by (simp add: setVolume_def Let_def split: option.splits)

lemma volume_step:
  "volume (step m ev) = (case ev of SetVolume v \<Rightarrow> min 1 (max 0 v) | _ \<Rightarrow> volume m)"
  by (cases ev)
     (simp_all add: volume_initializeAudio volume_play_playNextTrack volume_pause
        volume_setVolume volume_setEnabled)

lemma volume_range_foldl:
  "0 \<le> volume m \<Longrightarrow> volume m \<le> 1 \<Longrightarrow>
   0 \<le> volume (foldl step m events) \<and> volume (foldl step m events) \<le> 1"
proof (induction events arbitrary: m)
  case Nil
  then show ?case by simp
next
  case (Cons ev events)
  have "0 \<le> volume (step m ev) \<and> volume (step m ev) \<le> 1"
    using Cons.prems by (simp add: volume_step split: event.splits)
  then show ?case using Cons.IH by simp
qed

text \<open>
  Claim C10. The stored volume never leaves the interval from 0 to 1: \<^verbatim>\<open>setVolume(v)\<close>
  with a real \<open>v\<close> stores \<open>min 1 (max 0 v)\<close>, which \<^verbatim>\<open>getVolume\<close> returns; after any
  sequence of events from construction the volume lies in the interval; and an event
  other than \<^verbatim>\<open>setVolume\<close> leaves the volume as it was.
\<close>

theorem volume_always_clamped:
  "getVolume (setVolume v m) = min 1 (max 0 v)
   \<and> 0 \<le> getVolume (run events) \<and> getVolume (run events) \<le> 1
   \<and> ((\<forall>w. ev \<noteq> SetVolume w) \<longrightarrow> getVolume (step m ev) = getVolume m)"
proof -
  have "0 \<le> volume (run events) \<and> volume (run events) \<le> 1"
    unfolding run_def by (rule volume_range_foldl) (simp_all add: newBackgroundMusicManager_def)
  moreover have "(\<forall>w. ev \<noteq> SetVolume w) \<longrightarrow> volume (step m ev) = volume m"
    by (auto simp add: volume_step split: event.splits)
  ultimately show ?thesis by (simp add: getVolume_def volume_setVolume)
qed

theorem volume_always_clamped_witness:
  "getVolume (setVolume 7 newBackgroundMusicManager) = 1
   \<and> 0 \<le> getVolume (run [InitializeAudio (\<lambda>name. True), SetVolume (- 3), Ended [False, True]])
   \<and> getVolume (run [InitializeAudio (\<lambda>name. True), SetVolume (- 3), Ended [False, True]]) \<le> 1
   \<and> getVolume (step newBackgroundMusicManager (Play [False])) = 1 / 2"
  using volume_always_clamped [of 7 newBackgroundMusicManager
      "[InitializeAudio (\<lambda>name. True), SetVolume (- 3), Ended [False, True]]" "Play [False]"]
  by (simp add: getVolume_def newBackgroundMusicManager_def)

section \<open>Properties of the storage layer\<close>

subsection \<open>Document identifiers of numbers\<close>

lemmas digit_defs = digitValue_def isDigitOf_def digitOf_def

lemma key_1: "objectIdOfNumber (Number 1) = Some ''000000000000000000000001''"
proof -
  have "decimal 1 = ''1''"
    by (simp add: decimal.simps digitChar_def)
  moreover have "padStart 24 (CHR ''0'') ''1'' = ''000000000000000000000001''"
    by (simp add: padStart_def eval_nat_numeral)
  ultimately show ?thesis
    by (simp add: objectIdOfNumber_def numberToString_def newObjectId_def isObjectId_def
        digit_defs toLowerCase_def)
qed

lemma key_2: "objectIdOfNumber (Number 2) = Some ''000000000000000000000002''"
proof -
  have "decimal 2 = ''2''"
    by (simp add: decimal.simps digitChar_def)
  moreover have "padStart 24 (CHR ''0'') ''2'' = ''000000000000000000000002''"
    by (simp add: padStart_def eval_nat_numeral)
  ultimately show ?thesis
    by (simp add: objectIdOfNumber_def numberToString_def newObjectId_def isObjectId_def
        digit_defs toLowerCase_def)
qed

lemma key_10: "objectIdOfNumber (Number 10) = Some ''000000000000000000000010''"
proof -
  have "decimal 10 = ''10''"
    by (simp add: decimal.simps digitChar_def)
  moreover have "padStart 24 (CHR ''0'') ''10'' = ''000000000000000000000010''"
    by (simp add: padStart_def eval_nat_numeral)
  ultimately show ?thesis
    by (simp add: objectIdOfNumber_def numberToString_def newObjectId_def isObjectId_def
        digit_defs toLowerCase_def)
qed

lemma key_16: "objectIdOfNumber (Number 16) = Some ''000000000000000000000016''"
proof -
  have "decimal 16 = ''16''"
    by (simp add: decimal.simps digitChar_def)
  moreover have "padStart 24 (CHR ''0'') ''16'' = ''000000000000000000000016''"
    by (simp add: padStart_def eval_nat_numeral)
  ultimately show ?thesis
    by (simp add: objectIdOfNumber_def numberToString_def newObjectId_def isObjectId_def
        digit_defs toLowerCase_def)
qed

lemma key_13226209:
  "objectIdOfNumber (Number 13226209) = Some ''000000000000000013226209''"
proof -
  have "decimal 13226209 = ''13226209''"
    by (simp add: decimal.simps digitChar_def)
  moreover have "padStart 24 (CHR ''0'') ''13226209'' = ''000000000000000013226209''"
    by (simp add: padStart_def eval_nat_numeral)
  ultimately show ?thesis
    by (simp add: objectIdOfNumber_def numberToString_def newObjectId_def isObjectId_def
        digit_defs toLowerCase_def)
qed

lemma key_13226210:
  "objectIdOfNumber (Number 13226210) = Some ''000000000000000013226210''"
proof -
  have "decimal 13226210 = ''13226210''"
    by (simp add: decimal.simps digitChar_def)
  moreover have "padStart 24 (CHR ''0'') ''13226210'' = ''000000000000000013226210''"
    by (simp add: padStart_def eval_nat_numeral)
  ultimately show ?thesis
    by (simp add: objectIdOfNumber_def numberToString_def newObjectId_def isObjectId_def
        digit_defs toLowerCase_def)
qed

lemma key_65: "objectIdOfNumber (Number 65) = Some ''000000000000000000000065''"
proof -
  have "decimal 65 = ''65''"
    by (simp add: decimal.simps digitChar_def)
  moreover have "padStart 24 (CHR ''0'') ''65'' = ''000000000000000000000065''"
    by (simp add: padStart_def eval_nat_numeral)
  ultimately show ?thesis
    by (simp add: objectIdOfNumber_def numberToString_def newObjectId_def isObjectId_def
        digit_defs toLowerCase_def)
qed

subsection \<open>Queries and writes of one document\<close>

lemma length_updateFirst [simp]: "length (updateFirst p f docs) = length docs"
  by (induction docs) simp_all

lemma list_all_updateFirst:
  "list_all q docs \<Longrightarrow> (\<And>d. q d \<Longrightarrow> q (f d)) \<Longrightarrow> list_all q (updateFirst p f docs)"
  by (induction docs) simp_all

lemma updateFirst_distinct:
  assumes "distinct (map key docs)" and "\<And>d. key (f d) = key d"
  shows "updateFirst (\<lambda>d. key d = k) f docs = map (\<lambda>d. if key d = k then f d else d) docs"
  using assms(1)
proof (induction docs)
  case Nil
  then show ?case by simp
next
  case (Cons d docs)
  show ?case
  proof (cases "key d = k")
    case True
    then have "\<forall>x \<in> set docs. key x \<noteq> k"
      using Cons.prems by (auto simp: image_iff)
    then have "map (\<lambda>d. if key d = k then f d else d) docs = docs"
      by (simp add: map_idI)
    with True show ?thesis by simp
  next
    case False
    then show ?thesis using Cons by simp
  qed
qed

lemma findOne_Some:
  "findOne p docs = Some d \<Longrightarrow> d \<in> set docs \<and> p d"
  unfolding findOne_def by (induction docs) (auto split: if_splits)

lemma findOne_None:
  "findOne p docs = None \<Longrightarrow> \<forall>d \<in> set docs. \<not> p d"
  unfolding findOne_def by (induction docs) (auto split: if_splits)

subsection \<open>The example store after a user is created\<close>

lemma createUser_carol:
  "createUser exampleEnv exampleStorage carol
   = (Inr (convertMongoUser carolDocument), storageWithCarol)"
  by (simp add: createUser_def saveNew_def Let_def exampleEnv_def exampleStorage_def
      storageWithCarol_def carolDocument_def alice_def bob_def carol_def)

lemma id_carol: "user_id (convertMongoUser carolDocument) = Number 13226209"
  by (simp add: convertMongoUser_def carolDocument_def idOfObjectId_def parseIntRadix_def
      sliceLast_def digit_defs)

lemma id_alice: "user_id (convertMongoUser alice) = Number 16"
  by (simp add: convertMongoUser_def alice_def idOfObjectId_def parseIntRadix_def
      sliceLast_def digit_defs)

subsection \<open>Numeric identifiers of converted documents\<close>

lemma base16Value_foldl:
  "foldl (\<lambda>a c. a * 16 + digitOf c) a s = a * 16 ^ length s + base16Value s"
  by (induction s arbitrary: a) (simp_all add: algebra_simps)

lemma idOfObjectId_base16:
  assumes "isObjectId oid"
  shows "idOfObjectId oid = Number (int (base16Value (sliceLast 6 oid)))"
proof -
  let ?t = "sliceLast 6 oid"
  have all: "list_all (isDigitOf 16) ?t"
    using assms by (auto simp: isObjectId_def sliceLast_def list_all_iff dest: in_set_dropD)
  have "length ?t = 6" using assms by (simp add: isObjectId_def sliceLast_def)
  then have ne: "?t \<noteq> []" by auto
  have tw: "takeWhile (isDigitOf 16) ?t = ?t"
    using all by (simp add: takeWhile_eq_all_conv list_all_iff)
  show ?thesis
    unfolding idOfObjectId_def parseIntRadix_def
    using ne by (simp add: tw base16Value_foldl Let_def)
qed

text \<open>
  Claim C8. In every object that a conversion helper returns (users, deposits,
  withdrawals, game history, farm cats) the numeric identifier is the base-16 integer
  value of the last six characters of the document's identifier string, the identifier
  being the 24 hexadecimal characters of an \<^verbatim>\<open>ObjectId\<close>.
\<close>

theorem converted_id_is_base16_of_last_six:
  assumes "isObjectId (user_id user)"
    and "isObjectId (deposit_id deposit)"
    and "isObjectId (withdrawal_id withdrawal)"
    and "isObjectId (game_id game)"
    and "isObjectId (cat_id cat)"
  shows "user_id (convertMongoUser user) = Number (int (base16Value (sliceLast 6 (user_id user))))
    \<and> deposit_id (convertMongoDeposit deposit)
        = Number (int (base16Value (sliceLast 6 (deposit_id deposit))))
    \<and> withdrawal_id (convertMongoWithdrawal withdrawal)
        = Number (int (base16Value (sliceLast 6 (withdrawal_id withdrawal))))
    \<and> game_id (convertMongoGameHistory game)
        = Number (int (base16Value (sliceLast 6 (game_id game))))
    \<and> cat_id (farmCatObject cat) = Number (int (base16Value (sliceLast 6 (cat_id cat))))"
  using assms
  by (simp add: convertMongoUser_def convertMongoDeposit_def convertMongoWithdrawal_def
      convertMongoGameHistory_def farmCatObject_def idOfObjectId_base16)

lemma isObjectId_example: "isObjectId ''65a1b2c3d4e5f6a7b8c9d0e1''"
  by (simp add: isObjectId_def digit_defs)

lemma isObjectId_small:
  "isObjectId ''000000000000000000000001''"
  "isObjectId ''000000000000000000000002''"
  "isObjectId ''000000000000000000000004''"
  by (simp_all add: isObjectId_def digit_defs)

theorem converted_id_is_base16_of_last_six_witness:
  "isObjectId ''65a1b2c3d4e5f6a7b8c9d0e1''
   \<and> user_id (convertMongoUser (alice\<lparr>user_id := ''65a1b2c3d4e5f6a7b8c9d0e1''\<rparr>)) = Number 13226209
   \<and> deposit_id (convertMongoDeposit aliceDeposit) = Number 1
   \<and> withdrawal_id (convertMongoWithdrawal bobWithdrawal) = Number 2
   \<and> game_id (convertMongoGameHistory
        \<lparr>game_id = ''65a1b2c3d4e5f6a7b8c9d0e1'', game_userId = ''000000000000000000000010'',
         gameType = ''dice'', betAmount = ''1.00'', winAmount = ''0.00'',
         meowWon = ''0.00000000'', result = None, game_createdAt = 0\<rparr>) = Number 13226209
   \<and> cat_id (farmCatObject (farmCat ''000000000000000000000004'' ''000000000000000000000010'' 5))
       = Number 4"
  using converted_id_is_base16_of_last_six
    [of "alice\<lparr>user_id := ''65a1b2c3d4e5f6a7b8c9d0e1''\<rparr>" aliceDeposit bobWithdrawal
      "\<lparr>game_id = ''65a1b2c3d4e5f6a7b8c9d0e1'', game_userId = ''000000000000000000000010'',
         gameType = ''dice'', betAmount = ''1.00'', winAmount = ''0.00'',
         meowWon = ''0.00000000'', result = None, game_createdAt = 0\<rparr>"
      "farmCat ''000000000000000000000004'' ''000000000000000000000010'' 5"]
  by (simp add: isObjectId_example isObjectId_small aliceDeposit_def bobWithdrawal_def
      farmCat_def sliceLast_def digit_defs)

subsection \<open>Creating a user\<close>

text \<open>
  Claim C4. Whatever object \<^verbatim>\<open>createUser\<close> is given, the user it returns has the bcrypt
  hash of the supplied password as its password (so never the plaintext, unless the hash of
  a password were that password), balance \<^verbatim>\<open>"1000.00"\<close>, meowBalance \<^verbatim>\<open>"0.00000000"\<close>, and
  is neither administrator nor banned; the balances and flags of the input are not read.
  The document added to the collection carries the same values. The call does return a user
  when the storage is connected, no operation is rejected and the identifier is new.
\<close>

theorem createUser_hashes_and_defaults:
  "(\<forall>user s'. createUser e s insertUser = (Inr user, s') \<longrightarrow>
      password user = bcrypt_hash e (new_password insertUser) 10
      \<and> (bcrypt_hash e (new_password insertUser) 10 \<noteq> new_password insertUser
           \<longrightarrow> password user \<noteq> new_password insertUser)
      \<and> balance user = ''1000.00''
      \<and> meowBalance user = ''0.00000000''
      \<and> \<not> isAdmin user
      \<and> \<not> isBanned user
      \<and> (\<exists>doc. users s' = users s @ [doc] \<and> user = convertMongoUser doc
            \<and> password doc = bcrypt_hash e (new_password insertUser) 10
            \<and> balance doc = ''1000.00'' \<and> meowBalance doc = ''0.00000000''
            \<and> \<not> isAdmin doc \<and> \<not> isBanned doc))
   \<and> (isConnected s \<and> \<not> fails e 0 \<and> \<not> fails e 1 \<and> newId e 0 \<notin> set (map user_id (users s))
        \<longrightarrow> (\<exists>user s'. createUser e s insertUser = (Inr user, s')))"
  by (auto simp: createUser_def saveNew_def convertMongoUser_def Let_def
      split: if_splits sum.splits)

theorem createUser_hashes_and_defaults_witness:
  "createUser exampleEnv exampleStorage
      \<lparr>new_username = ''carol'', new_password = ''secret'', new_balance = Some ''999999.00'',
       new_meowBalance = Some ''5.00000000'', new_isAdmin = Some True, new_isBanned = Some True\<rparr>
    = (Inr \<lparr>user_id = Number 13226209, username = ''carol'', password = ''$2b$10$terces'',
            balance = ''1000.00'', meowBalance = ''0.00000000'', isAdmin = False,
            isBanned = False, user_createdAt = 1700000000000\<rparr>,
       exampleStorage\<lparr>users :=
         [alice, bob,
          \<lparr>user_id = ''65a1b2c3d4e5f6a7b8c9d0e1'', username = ''carol'',
           password = ''$2b$10$terces'', balance = ''1000.00'', meowBalance = ''0.00000000'',
           isAdmin = False, isBanned = False, user_createdAt = 1700000000000\<rparr>]\<rparr>)
   \<and> ''$2b$10$terces'' \<noteq> ''secret''"
  using createUser_hashes_and_defaults [of exampleEnv exampleStorage
      "\<lparr>new_username = ''carol'', new_password = ''secret'', new_balance = Some ''999999.00'',
       new_meowBalance = Some ''5.00000000'', new_isAdmin = Some True, new_isBanned = Some True\<rparr>"]
  by (simp add: createUser_def saveNew_def convertMongoUser_def Let_def exampleEnv_def
      exampleStorage_def alice_def bob_def idOfObjectId_def parseIntRadix_def sliceLast_def
      digit_defs)

subsection \<open>Game history and the jackpot\<close>

lemma orElse_zero:
  assumes "strictEquals J (parseFloat J ''0'') (ofInteger J 0)"
    and "strictEquals J (parseFloat J ''0.00'') (ofInteger J 0)"
  shows "strictEquals J (parseFloat J (orElse w ''0.00'')) (ofInteger J 0)
         = strictEquals J (parseFloat J (orElse w ''0'')) (ofInteger J 0)"
  using assms by (simp add: orElse_def split: option.splits)

lemma createGameHistory_returned:
  assumes "createGameHistory J e s game = (Inr saved, s')"
  shows "winAmount saved = orElse (new_winAmount game) ''0.00''
         \<and> betAmount saved = new_betAmount game"
  using assms
  by (auto simp: createGameHistory_def convertMongoGameHistory_def Let_def
      split: if_splits option.splits sum.splits list.splits)

lemma createGameHistory_jackpots:
  assumes "createGameHistory J e s game = (Inr saved, s')"
  shows "jackpots s' =
    (if strictEquals J (parseFloat J (orElse (new_winAmount game) ''0'')) (ofInteger J 0)
     then (case jackpots s of
             [] \<Rightarrow> []
           | jackpot # others \<Rightarrow>
               jackpot\<lparr>amount :=
                   toFixed J
                     (addition J (parseFloat J (amount jackpot))
                        (multiplication J (parseFloat J (new_betAmount game)) (literal_0_01 J)))
                     8,
                 updatedAt := clock e 1\<rparr> # others)
     else jackpots s)"
  using assms
  by (auto simp: createGameHistory_def Let_def
      split: if_splits option.splits sum.splits list.splits)

text \<open>
  Claim C1, as amended. When \<^verbatim>\<open>createGameHistory\<close> returns a game-history record whose
  \<^verbatim>\<open>winAmount\<close> parses to exactly 0, the amount of the jackpot after the call is the amount before plus
  1% of the bet, formatted to 8 decimal places (\<^verbatim>\<open>toFixed(8)\<close> of the runtime's sum and
  product), and when the \<^verbatim>\<open>winAmount\<close> of the record does not parse to 0 the jackpot is as
  before. The jackpot is the first document of its collection; no other jackpot document
  changes, and with no jackpot document none is made. Of the runtime's arithmetic the
  statement takes that \<^verbatim>\<open>parseFloat("0")\<close> and \<^verbatim>\<open>parseFloat("0.00")\<close> are \<^verbatim>\<open>=== 0\<close>.
\<close>

theorem createGameHistory_jackpot:
  assumes "createGameHistory J e s game = (Inr saved, s')"
    and "strictEquals J (parseFloat J ''0'') (ofInteger J 0)"
    and "strictEquals J (parseFloat J ''0.00'') (ofInteger J 0)"
  shows "(strictEquals J (parseFloat J (winAmount saved)) (ofInteger J 0) \<longrightarrow>
            jackpots s' =
              (case jackpots s of
                 [] \<Rightarrow> []
               | jackpot # others \<Rightarrow>
                   jackpot\<lparr>amount :=
                       toFixed J
                         (addition J (parseFloat J (amount jackpot))
                            (multiplication J (parseFloat J (betAmount saved)) (literal_0_01 J)))
                         8,
                     updatedAt := clock e 1\<rparr> # others))
       \<and> (\<not> strictEquals J (parseFloat J (winAmount saved)) (ofInteger J 0) \<longrightarrow>
            jackpots s' = jackpots s)"
proof -
  have w: "winAmount saved = orElse (new_winAmount game) ''0.00''"
    and b: "betAmount saved = new_betAmount game"
    using createGameHistory_returned [OF assms(1)] by simp_all
  have z: "strictEquals J (parseFloat J (winAmount saved)) (ofInteger J 0)
           = strictEquals J (parseFloat J (orElse (new_winAmount game) ''0'')) (ofInteger J 0)"
    unfolding w by (rule orElse_zero [OF assms(2) assms(3)])
  show ?thesis
    using createGameHistory_jackpots [OF assms(1)] by (simp add: z b split: list.splits)
qed

lemma jackpot_after_loss:
  "decimalToFixed
     (decimalAdd (decimalParseFloat ''0.10000000'')
        (decimalMultiply (decimalParseFloat ''50.00'') (Decimal 1 2))) 8 = ''0.60000000''"
proof -
  have p1: "decimalParseFloat ''0.10000000'' = Decimal 10000000 8"
    by (simp add: decimalParseFloat_def parseUnsigned_def isDecimalDigit_def digitsValue_def
        digit_defs Let_def)
  have p2: "decimalParseFloat ''50.00'' = Decimal 5000 2"
    by (simp add: decimalParseFloat_def parseUnsigned_def isDecimalDigit_def digitsValue_def
        digit_defs Let_def)
  have s: "decimalAdd (Decimal 10000000 8) (decimalMultiply (Decimal 5000 2) (Decimal 1 2))
           = Decimal 60000000 8"
    by (simp add: decimalAdd_def decimalMultiply_def)
  have d: "decimal 60000000 = ''60000000''"
    by (simp add: decimal.simps digitChar_def)
  show ?thesis
    unfolding p1 p2 s by (simp add: decimalToFixed_def padStart_def d)
qed

lemma decimal_zero:
  "decimalEquals (decimalParseFloat ''0'') (Decimal 0 0)"
  "decimalEquals (decimalParseFloat ''0.00'') (Decimal 0 0)"
  "\<not> decimalEquals (decimalParseFloat ''75.00'') (Decimal 0 0)"
  by (simp_all add: decimalEquals_def decimalParseFloat_def parseUnsigned_def
      isDecimalDigit_def digitsValue_def digit_defs Let_def)

theorem createGameHistory_jackpot_witness:
  "map amount (jackpots exampleStorage) = [''0.10000000'']
   \<and> map_sum id winAmount
         (fst (createGameHistory decimalArithmetic exampleEnv exampleStorage lostGame))
       = Inr ''0.00''
   \<and> map amount
         (jackpots (snd (createGameHistory decimalArithmetic exampleEnv exampleStorage lostGame)))
       = [''0.60000000'']
   \<and> map_sum id winAmount
         (fst (createGameHistory decimalArithmetic exampleEnv exampleStorage wonGame))
       = Inr ''75.00''
   \<and> map amount
         (jackpots (snd (createGameHistory decimalArithmetic exampleEnv exampleStorage wonGame)))
       = [''0.10000000'']"
proof -
  have j: "isConnected exampleStorage" "jackpots exampleStorage = [theJackpot]"
    "gameHistory exampleStorage = []"
    by (simp_all add: exampleStorage_def)
  have e: "fails exampleEnv = (\<lambda>k. False)"
    by (simp add: exampleEnv_def)
  obtain saved s' where
    r: "createGameHistory decimalArithmetic exampleEnv exampleStorage lostGame = (Inr saved, s')"
    by (simp add: createGameHistory_def key_10 lostGame_def j e saveNew_def Let_def
        decimalArithmetic_def orElse_def decimal_zero)
  obtain saved2 s2 where
    r2: "createGameHistory decimalArithmetic exampleEnv exampleStorage wonGame = (Inr saved2, s2)"
    by (simp add: createGameHistory_def key_10 lostGame_def wonGame_def j e saveNew_def Let_def
        decimalArithmetic_def orElse_def decimal_zero)
  have z: "strictEquals decimalArithmetic (parseFloat decimalArithmetic ''0'')
             (ofInteger decimalArithmetic 0)"
    "strictEquals decimalArithmetic (parseFloat decimalArithmetic ''0.00'')
             (ofInteger decimalArithmetic 0)"
    by (simp_all add: decimalArithmetic_def decimal_zero)
  have w: "winAmount saved = ''0.00''" "betAmount saved = ''50.00''"
    using createGameHistory_returned [OF r] by (simp_all add: lostGame_def orElse_def)
  have w2: "winAmount saved2 = ''75.00''"
    using createGameHistory_returned [OF r2] by (simp add: lostGame_def wonGame_def orElse_def)
  have "map amount (jackpots s') = [''0.60000000'']"
    using createGameHistory_jackpot [OF r z]
    by (simp add: w j theJackpot_def decimalArithmetic_def decimal_zero jackpot_after_loss)
  moreover have "jackpots s2 = jackpots exampleStorage"
    using createGameHistory_jackpot [OF r2 z]
    by (simp add: w2 decimalArithmetic_def decimal_zero)
  ultimately show ?thesis
    by (simp add: r r2 w w2 j theJackpot_def)
qed

text \<open>
  Claim C1 as it is stated fails: the record is saved before the jackpot is read. When
  the store then rejects \<^verbatim>\<open>Jackpot.findOne()\<close>, \<^verbatim>\<open>createGameHistory\<close> throws the error
  again; the record of the lost game, whose \<^verbatim>\<open>winAmount\<close> parses to 0, is in the
  collection, and the jackpot is what it was.
\<close>

theorem createGameHistory_saves_then_throws:
  "gameHistory exampleStorage = []
   \<and> map amount (jackpots exampleStorage) = [''0.10000000'']
   \<and> fst (createGameHistory decimalArithmetic saveFailsEnv exampleStorage lostGame)
       = Inl StoreError
   \<and> map winAmount
         (gameHistory (snd (createGameHistory decimalArithmetic saveFailsEnv exampleStorage
                              lostGame))) = [''0.00'']
   \<and> map betAmount
         (gameHistory (snd (createGameHistory decimalArithmetic saveFailsEnv exampleStorage
                              lostGame))) = [''50.00'']
   \<and> decimalEquals (decimalParseFloat ''0.00'') (Decimal 0 0)
   \<and> map amount
         (jackpots (snd (createGameHistory decimalArithmetic saveFailsEnv exampleStorage
                           lostGame))) = [''0.10000000'']"
proof -
  have j: "isConnected exampleStorage" "jackpots exampleStorage = [theJackpot]"
    "gameHistory exampleStorage = []"
    by (simp_all add: exampleStorage_def)
  have e: "fails saveFailsEnv = (\<lambda>k. k = 1)"
    by (simp add: saveFailsEnv_def exampleEnv_def)
  have "createGameHistory decimalArithmetic saveFailsEnv exampleStorage lostGame
        = (Inl StoreError,
           exampleStorage\<lparr>gameHistory :=
             [\<lparr>game_id = newId saveFailsEnv 0, game_userId = ''000000000000000000000010'',
               gameType = ''dice'', betAmount = ''50.00'', winAmount = ''0.00'',
               meowWon = ''0.00000000'', result = Some ''lose'',
               game_createdAt = clock saveFailsEnv 0\<rparr>]\<rparr>)"
    by (simp add: createGameHistory_def key_10 lostGame_def j e saveNew_def Let_def
        decimalArithmetic_def orElse_def orNull_def decimal_zero)
  then show ?thesis
    by (simp add: j theJackpot_def decimal_zero)
qed

subsection \<open>Errors of the store\<close>

lemma updateUserBalance_returns: "fst (updateUserBalance e s n b m) = Inr ()"
  by (simp add: updateUserBalance_def split: option.splits)

lemma reads_never_throw:
  "\<not> isl (getUser e s ident)"
  "\<not> isl (getUserByUsername e s name)"
  "\<not> isl (getAllUsers e s)"
  "\<not> isl (getDeposits e s)"
  "\<not> isl (getWithdrawal e s ident)"
  "\<not> isl (getWithdrawals e s)"
  "\<not> isl (getUserWithdrawals e s ident)"
  "\<not> isl (getGameHistory e s maybeId)"
  "\<not> isl (getFarmData J e s ident)"
  "\<not> isl (getFarmCat e s ident)"
  by (simp_all add: getUser_def getUserByUsername_def getAllUsers_def getDeposits_def
      getWithdrawal_def getWithdrawals_def getUserWithdrawals_def getGameHistory_def
      getFarmData_def getFarmCat_def Let_def split: option.splits)

lemma writes_never_throw:
  "\<not> isl (fst (updateUserBalance e s ident b m))"
  "\<not> isl (fst (banUser e s ident banned))"
  "\<not> isl (fst (updateDepositStatus J e s ident status))"
  "\<not> isl (fst (updateWithdrawalStatus e s ident status))"
  "\<not> isl (fst (getJackpot e s))"
  "\<not> isl (fst (updateJackpot e s newAmount maybeId))"
  "\<not> isl (fst (createFarmCat J e s cat))"
  "\<not> isl (fst (upgradeFarmCat e s ident l p))"
  "\<not> isl (fst (claimFarmRewards e s ident))"
  by (simp_all add: updateUserBalance_returns banUser_def updateDepositStatus_def
      updateWithdrawalStatus_def getJackpot_def updateJackpot_def createFarmCat_def
      upgradeFarmCat_def claimFarmRewards_def saveNew_def Let_def
      split: option.splits list.splits sum.splits)

lemma reads_degrade:
  assumes "fails e 0"
  shows "getUser e s ident = Inr None"
    "getUserByUsername e s name = Inr None"
    "getAllUsers e s = Inr []"
    "getDeposits e s = Inr []"
    "getWithdrawal e s ident = Inr None"
    "getWithdrawals e s = Inr []"
    "getUserWithdrawals e s ident = Inr []"
    "getGameHistory e s maybeId = Inr []"
    "getFarmData J e s ident = Inr (emptyFarm J)"
    "getFarmCat e s ident = Inr None"
  using assms
  by (simp_all add: getUser_def getUserByUsername_def getAllUsers_def getDeposits_def
      getWithdrawal_def getWithdrawals_def getUserWithdrawals_def getGameHistory_def
      getFarmData_def getFarmCat_def Let_def split: option.splits)

lemma writes_degrade:
  assumes "fails e 0"
  shows "updateUserBalance e s ident b m = (Inr (), s)"
    "banUser e s ident banned = (Inr (), s)"
    "updateDepositStatus J e s ident status = (Inr (), s)"
    "updateWithdrawalStatus e s ident status = (Inr (), s)"
    "getJackpot e s = (Inr (defaultJackpot (clock e 0)), s)"
    "updateJackpot e s newAmount maybeId = (Inr (), s)"
    "createFarmCat J e s cat = (Inr None, s)"
    "upgradeFarmCat e s ident l p = (Inr (), s)"
    "claimFarmRewards e s ident = (Inr (), s)"
  using assms
  by (simp_all add: updateUserBalance_def banUser_def updateDepositStatus_def
      updateWithdrawalStatus_def getJackpot_def updateJackpot_def createFarmCat_def
      upgradeFarmCat_def claimFarmRewards_def saveNew_def Let_def
      split: option.splits list.splits sum.splits)

lemma creates_rethrow:
  assumes "isConnected s" and "fails e 0"
  shows "createUser e s insertUser = (Inl HashError, s)"
    "isl (fst (createDeposit e s deposit)) \<and> snd (createDeposit e s deposit) = s"
    "isl (fst (createWithdrawal e s withdrawal)) \<and> snd (createWithdrawal e s withdrawal) = s"
    "isl (fst (createGameHistory J e s game)) \<and> snd (createGameHistory J e s game) = s"
  using assms
  by (simp_all add: createUser_def createDeposit_def createWithdrawal_def
      createGameHistory_def saveNew_def Let_def split: option.splits)

lemma creates_throw_unconnected:
  assumes "\<not> isConnected s"
  shows "createUser e s insertUser = (Inl NotConnected, s)"
    "createDeposit e s deposit = (Inl NotConnected, s)"
    "createWithdrawal e s withdrawal = (Inl NotConnected, s)"
    "createGameHistory J e s game = (Inl NotConnected, s)"
  using assms
  by (simp_all add: createUser_def createDeposit_def createWithdrawal_def
      createGameHistory_def)

lemma createUser_save_rethrows:
  "isConnected s \<Longrightarrow> \<not> fails e 0 \<Longrightarrow> fails e 1 \<Longrightarrow> createUser e s insertUser = (Inl StoreError, s)"
  by (simp add: createUser_def saveNew_def Let_def)

text \<open>
  Claim C3, as amended. Every data-access method but the four that create a user, a
  deposit, a withdrawal or a game-history record catches an error of its store operation:
  it never throws, and when the operation is rejected it returns its empty or default
  value (\<^verbatim>\<open>undefined\<close>, \<^verbatim>\<open>null\<close>, an empty list, the default jackpot, the empty farm) or
  does nothing, leaving the store as it was. \<^verbatim>\<open>createUser\<close>, \<^verbatim>\<open>createDeposit\<close>,
  \<^verbatim>\<open>createWithdrawal\<close> and \<^verbatim>\<open>createGameHistory\<close> log the error and throw it again, and
  they throw when the storage is not connected.
\<close>

theorem failures_caught_except_by_create:
  "(\<not> isl (getUser e s ident) \<and> \<not> isl (getUserByUsername e s name)
    \<and> \<not> isl (getAllUsers e s) \<and> \<not> isl (getDeposits e s)
    \<and> \<not> isl (getWithdrawal e s ident) \<and> \<not> isl (getWithdrawals e s)
    \<and> \<not> isl (getUserWithdrawals e s ident) \<and> \<not> isl (getGameHistory e s maybeId)
    \<and> \<not> isl (getFarmData J e s ident) \<and> \<not> isl (getFarmCat e s ident)
    \<and> \<not> isl (fst (updateUserBalance e s ident newBalance newMeow))
    \<and> \<not> isl (fst (banUser e s ident banned))
    \<and> \<not> isl (fst (updateDepositStatus J e s ident status))
    \<and> \<not> isl (fst (updateWithdrawalStatus e s ident status))
    \<and> \<not> isl (fst (getJackpot e s))
    \<and> \<not> isl (fst (updateJackpot e s newAmount maybeId))
    \<and> \<not> isl (fst (createFarmCat J e s cat))
    \<and> \<not> isl (fst (upgradeFarmCat e s ident newLevel newProduction))
    \<and> \<not> isl (fst (claimFarmRewards e s ident)))
   \<and> (fails e 0 \<longrightarrow>
        getUser e s ident = Inr None \<and> getUserByUsername e s name = Inr None
        \<and> getAllUsers e s = Inr [] \<and> getDeposits e s = Inr []
        \<and> getWithdrawal e s ident = Inr None \<and> getWithdrawals e s = Inr []
        \<and> getUserWithdrawals e s ident = Inr [] \<and> getGameHistory e s maybeId = Inr []
        \<and> getFarmData J e s ident = Inr (emptyFarm J) \<and> getFarmCat e s ident = Inr None
        \<and> updateUserBalance e s ident newBalance newMeow = (Inr (), s)
        \<and> banUser e s ident banned = (Inr (), s)
        \<and> updateDepositStatus J e s ident status = (Inr (), s)
        \<and> updateWithdrawalStatus e s ident status = (Inr (), s)
        \<and> getJackpot e s = (Inr (defaultJackpot (clock e 0)), s)
        \<and> updateJackpot e s newAmount maybeId = (Inr (), s)
        \<and> createFarmCat J e s cat = (Inr None, s)
        \<and> upgradeFarmCat e s ident newLevel newProduction = (Inr (), s)
        \<and> claimFarmRewards e s ident = (Inr (), s))
   \<and> (isConnected s \<and> fails e 0 \<longrightarrow>
        createUser e s insertUser = (Inl HashError, s)
        \<and> isl (fst (createDeposit e s deposit)) \<and> snd (createDeposit e s deposit) = s
        \<and> isl (fst (createWithdrawal e s withdrawal))
        \<and> snd (createWithdrawal e s withdrawal) = s
        \<and> isl (fst (createGameHistory J e s game)) \<and> snd (createGameHistory J e s game) = s)
   \<and> (isConnected s \<and> \<not> fails e 0 \<and> fails e 1 \<longrightarrow>
        createUser e s insertUser = (Inl StoreError, s))
   \<and> (\<not> isConnected s \<longrightarrow>
        createUser e s insertUser = (Inl NotConnected, s)
        \<and> createDeposit e s deposit = (Inl NotConnected, s)
        \<and> createWithdrawal e s withdrawal = (Inl NotConnected, s)
        \<and> createGameHistory J e s game = (Inl NotConnected, s))"
  by (intro conjI impI)
     (simp_all add: reads_never_throw writes_never_throw reads_degrade writes_degrade
       creates_rethrow creates_throw_unconnected createUser_save_rethrows)

theorem failures_caught_except_by_create_witness:
  "fails failingEnv 0 \<and> isConnected exampleStorage
   \<and> getUser failingEnv exampleStorage (Number 10) = Inr None
   \<and> getDeposits failingEnv exampleStorage = Inr []
   \<and> banUser failingEnv exampleStorage (Number 10) True = (Inr (), exampleStorage)
   \<and> getFarmData decimalArithmetic failingEnv exampleStorage (Number 10)
       = Inr \<lparr>cats = [], totalProduction = Decimal 0 0, unclaimedMeow = ''0.00000000''\<rparr>
   \<and> createUser failingEnv exampleStorage carol = (Inl HashError, exampleStorage)
   \<and> createGameHistory decimalArithmetic failingEnv exampleStorage lostGame
       = (Inl StoreError, exampleStorage)
   \<and> createUser exampleEnv offlineStorage carol = (Inl NotConnected, offlineStorage)"
proof -
  have f: "fails failingEnv 0" "fails failingEnv = (\<lambda>k. True)"
    by (simp_all add: failingEnv_def)
  have c: "isConnected exampleStorage" "\<not> isConnected offlineStorage"
    by (simp_all add: exampleStorage_def offlineStorage_def)
  have g: "createGameHistory decimalArithmetic failingEnv exampleStorage lostGame
           = (Inl StoreError, exampleStorage)"
    by (simp add: createGameHistory_def c f key_10 lostGame_def saveNew_def Let_def)
  have m: "emptyFarm decimalArithmetic
           = \<lparr>cats = [], totalProduction = Decimal 0 0, unclaimedMeow = ''0.00000000''\<rparr>"
    by (simp add: emptyFarm_def decimalArithmetic_def)
  show ?thesis
    using failures_caught_except_by_create
        [of failingEnv exampleStorage "Number 10" "[]" None decimalArithmetic "[]" None True
          "[]" "[]"
          "\<lparr>new_cat_userId = Number 10, new_catId = ''tabby'', new_production = Decimal 5 1\<rparr>"
          "Decimal 2 0" "Decimal 9 1" carol
          "\<lparr>new_deposit_userId = Number 10, new_deposit_amount = ''5.00'',
            new_deposit_receiptUrl = None\<rparr>"
          "\<lparr>new_withdrawal_userId = Number 10, new_withdrawal_amount = ''5.00'',
            new_withdrawal_platform = ''bank'', new_withdrawal_accountInfo = ''1''\<rparr>"
          lostGame]
      failures_caught_except_by_create
        [of exampleEnv offlineStorage "Number 10" "[]" None decimalArithmetic "[]" None True
          "[]" "[]"
          "\<lparr>new_cat_userId = Number 10, new_catId = ''tabby'', new_production = Decimal 5 1\<rparr>"
          "Decimal 2 0" "Decimal 9 1" carol
          "\<lparr>new_deposit_userId = Number 10, new_deposit_amount = ''5.00'',
            new_deposit_receiptUrl = None\<rparr>"
          "\<lparr>new_withdrawal_userId = Number 10, new_withdrawal_amount = ''5.00'',
            new_withdrawal_platform = ''bank'', new_withdrawal_accountInfo = ''1''\<rparr>"
          lostGame]
    by (simp add: f c g m)
qed

text \<open>
  Claim C3 as it is stated fails: when the store rejects the \<^verbatim>\<open>save()\<close> of the new user,
  \<^verbatim>\<open>createUser\<close> throws the error to its caller.
\<close>

theorem createUser_propagates_failure:
  "createUser saveFailsEnv exampleStorage carol = (Inl StoreError, exampleStorage)"
  by (simp add: createUser_def saveFailsEnv_def exampleEnv_def exampleStorage_def
      saveNew_def Let_def)

subsection \<open>The status of deposits and withdrawals\<close>

lemma deposits_updateUserBalance: "deposits (snd (updateUserBalance e s n b m)) = deposits s"
  by (simp add: updateUserBalance_def split: option.splits)

lemma deposits_updateDepositStatus:
  "deposits (snd (updateDepositStatus J e s ident status)) =
     (if isConnected s \<and> \<not> fails e 0
      then (case objectIdOfNumber ident of
              None \<Rightarrow> deposits s
            | Some k \<Rightarrow>
                updateFirst (\<lambda>d. deposit_id d = k) (\<lambda>d. d\<lparr>deposit_status := status\<rparr>)
                  (deposits s))
      else deposits s)"
  by (simp add: updateDepositStatus_def deposits_updateUserBalance Let_def
      split: option.splits)

lemma withdrawals_updateWithdrawalStatus:
  "withdrawals (snd (updateWithdrawalStatus e s ident status)) =
     (if isConnected s \<and> \<not> fails e 0
      then (case objectIdOfNumber ident of
              None \<Rightarrow> withdrawals s
            | Some k \<Rightarrow>
                updateFirst (\<lambda>w. withdrawal_id w = k) (\<lambda>w. w\<lparr>withdrawal_status := status\<rparr>)
                  (withdrawals s))
      else withdrawals s)"
  by (simp add: updateWithdrawalStatus_def split: option.splits)

text \<open>
  Claim C5, as amended. \<^verbatim>\<open>createDeposit\<close> and \<^verbatim>\<open>createWithdrawal\<close> give the new record the
  status \<^verbatim>\<open>"pending"\<close>. \<^verbatim>\<open>updateDepositStatus\<close> and \<^verbatim>\<open>updateWithdrawalStatus\<close> take any
  string and store it as it is: when every stored status is one of \<^verbatim>\<open>"pending"\<close>,
  \<^verbatim>\<open>"approved"\<close>, \<^verbatim>\<open>"rejected"\<close> and the status argument is one of the three, every stored
  status is one of the three after the call.
\<close>

theorem status_stays_in_enum_for_enum_arguments:
  "(\<forall>made s'. createDeposit e s deposit = (Inr made, s') \<longrightarrow>
      deposit_status made = ''pending''
      \<and> (\<exists>doc. deposits s' = deposits s @ [doc] \<and> deposit_status doc = ''pending''))
   \<and> (\<forall>made s'. createWithdrawal e s withdrawal = (Inr made, s') \<longrightarrow>
      withdrawal_status made = ''pending''
      \<and> (\<exists>doc. withdrawals s' = withdrawals s @ [doc] \<and> withdrawal_status doc = ''pending''))
   \<and> (isStatus status \<and> list_all (\<lambda>d. isStatus (deposit_status d)) (deposits s) \<longrightarrow>
        list_all (\<lambda>d. isStatus (deposit_status d))
          (deposits (snd (updateDepositStatus J e s ident status))))
   \<and> (isStatus status \<and> list_all (\<lambda>w. isStatus (withdrawal_status w)) (withdrawals s) \<longrightarrow>
        list_all (\<lambda>w. isStatus (withdrawal_status w))
          (withdrawals (snd (updateWithdrawalStatus e s ident status))))"
proof (intro conjI allI impI)
  fix made s'
  assume "createDeposit e s deposit = (Inr made, s')"
  then show "deposit_status made = ''pending''"
    and "\<exists>doc. deposits s' = deposits s @ [doc] \<and> deposit_status doc = ''pending''"
    by (auto simp: createDeposit_def saveNew_def convertMongoDeposit_def Let_def
        split: if_splits option.splits)
next
  fix made s'
  assume "createWithdrawal e s withdrawal = (Inr made, s')"
  then show "withdrawal_status made = ''pending''"
    and "\<exists>doc. withdrawals s' = withdrawals s @ [doc] \<and> withdrawal_status doc = ''pending''"
    by (auto simp: createWithdrawal_def saveNew_def convertMongoWithdrawal_def Let_def
        split: if_splits option.splits)
next
  assume "isStatus status \<and> list_all (\<lambda>d. isStatus (deposit_status d)) (deposits s)"
  then show "list_all (\<lambda>d. isStatus (deposit_status d))
          (deposits (snd (updateDepositStatus J e s ident status)))"
    by (auto simp: deposits_updateDepositStatus intro: list_all_updateFirst
        split: option.splits)
next
  assume "isStatus status \<and> list_all (\<lambda>w. isStatus (withdrawal_status w)) (withdrawals s)"
  then show "list_all (\<lambda>w. isStatus (withdrawal_status w))
          (withdrawals (snd (updateWithdrawalStatus e s ident status)))"
    by (auto simp: withdrawals_updateWithdrawalStatus intro: list_all_updateFirst
        split: option.splits)
qed

theorem status_stays_in_enum_for_enum_arguments_witness:
  "isStatus ''rejected''
   \<and> map deposit_status (deposits exampleStorage) = [''pending'']
   \<and> map deposit_status
         (deposits (snd (updateDepositStatus decimalArithmetic exampleEnv exampleStorage
            (Number 1) ''rejected''))) = [''rejected'']
   \<and> map withdrawal_status
         (withdrawals (snd (updateWithdrawalStatus exampleEnv exampleStorage
            (Number 2) ''rejected''))) = [''rejected'']
   \<and> map_sum id deposit_status
         (fst (createDeposit exampleEnv exampleStorage
            \<lparr>new_deposit_userId = Number 10, new_deposit_amount = ''5.00'',
             new_deposit_receiptUrl = None\<rparr>)) = Inr ''pending''
   \<and> map_sum id withdrawal_status
         (fst (createWithdrawal exampleEnv exampleStorage
            \<lparr>new_withdrawal_userId = Number 10, new_withdrawal_amount = ''5.00'',
             new_withdrawal_platform = ''bank'', new_withdrawal_accountInfo = ''1''\<rparr>))
       = Inr ''pending''"
proof -
  have x: "isConnected exampleStorage" "deposits exampleStorage = [aliceDeposit]"
    "withdrawals exampleStorage = [bobWithdrawal]" "fails exampleEnv = (\<lambda>k. False)"
    by (simp_all add: exampleStorage_def exampleEnv_def)
  have d: "createDeposit exampleEnv exampleStorage
            \<lparr>new_deposit_userId = Number 10, new_deposit_amount = ''5.00'',
             new_deposit_receiptUrl = None\<rparr>
           = (Inr (convertMongoDeposit
                \<lparr>deposit_id = ''65a1b2c3d4e5f6a7b8c9d0e1'',
                 deposit_userId = ''000000000000000000000010'', deposit_amount = ''5.00'',
                 deposit_receiptUrl = None, deposit_status = ''pending'',
                 deposit_createdAt = 1700000000000\<rparr>),
              exampleStorage\<lparr>deposits :=
                [aliceDeposit,
                 \<lparr>deposit_id = ''65a1b2c3d4e5f6a7b8c9d0e1'',
                  deposit_userId = ''000000000000000000000010'', deposit_amount = ''5.00'',
                  deposit_receiptUrl = None, deposit_status = ''pending'',
                  deposit_createdAt = 1700000000000\<rparr>]\<rparr>)"
    by (simp add: createDeposit_def x key_10 saveNew_def Let_def orNull_def exampleEnv_def
        aliceDeposit_def)
  have w: "createWithdrawal exampleEnv exampleStorage
            \<lparr>new_withdrawal_userId = Number 10, new_withdrawal_amount = ''5.00'',
             new_withdrawal_platform = ''bank'', new_withdrawal_accountInfo = ''1''\<rparr>
           = (Inr (convertMongoWithdrawal
                \<lparr>withdrawal_id = ''65a1b2c3d4e5f6a7b8c9d0e1'',
                 withdrawal_userId = ''000000000000000000000010'',
                 withdrawal_amount = ''5.00'', withdrawal_platform = ''bank'',
                 withdrawal_accountInfo = ''1'', withdrawal_status = ''pending'',
                 withdrawal_createdAt = 1700000000000\<rparr>),
              exampleStorage\<lparr>withdrawals :=
                [bobWithdrawal,
                 \<lparr>withdrawal_id = ''65a1b2c3d4e5f6a7b8c9d0e1'',
                  withdrawal_userId = ''000000000000000000000010'',
                  withdrawal_amount = ''5.00'', withdrawal_platform = ''bank'',
                  withdrawal_accountInfo = ''1'', withdrawal_status = ''pending'',
                  withdrawal_createdAt = 1700000000000\<rparr>]\<rparr>)"
    by (simp add: createWithdrawal_def x key_10 saveNew_def Let_def exampleEnv_def
        bobWithdrawal_def)
  show ?thesis
    using status_stays_in_enum_for_enum_arguments
      [of exampleEnv exampleStorage
        "\<lparr>new_deposit_userId = Number 10, new_deposit_amount = ''5.00'',
          new_deposit_receiptUrl = None\<rparr>"
        "\<lparr>new_withdrawal_userId = Number 10, new_withdrawal_amount = ''5.00'',
             new_withdrawal_platform = ''bank'', new_withdrawal_accountInfo = ''1''\<rparr>"
        "''rejected''" decimalArithmetic "Number 1"]
    by (simp add: d w x deposits_updateDepositStatus withdrawals_updateWithdrawalStatus
        key_1 key_2 aliceDeposit_def bobWithdrawal_def isStatus_def
        convertMongoDeposit_def convertMongoWithdrawal_def)
qed

text \<open>
  Claim C5 as it is stated fails: \<^verbatim>\<open>updateDepositStatus\<close> accepts a string that is none of
  the three values and stores it.
\<close>

theorem updateDepositStatus_stores_any_string:
  "\<not> isStatus ''banana''
   \<and> map deposit_status (deposits exampleStorage) = [''pending'']
   \<and> map deposit_status
         (deposits (snd (updateDepositStatus decimalArithmetic exampleEnv exampleStorage
            (Number 1) ''banana''))) = [''banana'']"
  by (simp add: deposits_updateDepositStatus key_1 isStatus_def exampleStorage_def
      exampleEnv_def aliceDeposit_def)

subsection \<open>Banning a user\<close>

lemma banUser_state:
  "banUser e s userId banned =
     (Inr (),
      if isConnected s \<and> \<not> fails e 0
      then (case objectIdOfNumber userId of
              None \<Rightarrow> s
            | Some k \<Rightarrow>
                s\<lparr>users := updateFirst (\<lambda>u. user_id u = k) (\<lambda>u. u\<lparr>isBanned := banned\<rparr>)
                              (users s)\<rparr>)
      else s)"
  by (simp add: banUser_def split: option.splits)

lemma banUser_users:
  assumes "distinct (map user_id (users s))"
  shows "users (snd (banUser e s userId banned)) =
     map (\<lambda>u. if isConnected s \<and> \<not> fails e 0 \<and> Some (user_id u) = objectIdOfNumber userId
               then u\<lparr>isBanned := banned\<rparr> else u) (users s)"
proof (cases "isConnected s \<and> \<not> fails e 0")
  case False
  then show ?thesis by (auto simp: banUser_state map_idI)
next
  case True
  show ?thesis
  proof (cases "objectIdOfNumber userId")
    case None
    then show ?thesis using True by (simp add: banUser_state map_idI)
  next
    case (Some k)
    have "users (snd (banUser e s userId banned))
          = updateFirst (\<lambda>u. user_id u = k) (\<lambda>u. u\<lparr>isBanned := banned\<rparr>) (users s)"
      using True Some by (simp add: banUser_state)
    also have "\<dots> = map (\<lambda>u. if user_id u = k then u\<lparr>isBanned := banned\<rparr> else u) (users s)"
      by (rule updateFirst_distinct [OF assms]) simp
    also have "\<dots> = map (\<lambda>u. if isConnected s \<and> \<not> fails e 0
                                  \<and> Some (user_id u) = objectIdOfNumber userId
                               then u\<lparr>isBanned := banned\<rparr> else u) (users s)"
      using True Some by simp
    finally show ?thesis .
  qed
qed

text \<open>
  What \<^verbatim>\<open>banUser\<close> does, told by the document its query matches. The document
  identifiers of the users being distinct and \<^verbatim>\<open>userId\<close> of a magnitude below \<open>2^53\<close>,
  \<^verbatim>\<open>banUser(userId, banned)\<close> keeps the users in place, and of each user it keeps the
  identifier, the user name, the password, both balances, the administrator flag and the
  date of creation; the banned flag becomes the argument for the user whose document
  identifier is the decimal numeral of \<^verbatim>\<open>userId\<close> padded with zeros to 24 characters,
  provided the storage is connected and the store does not reject the update, and stays as
  it was for every other user and in every other case. No other collection changes.
\<close>

lemma banUser_sets_flag_only:
  assumes "distinct (map user_id (users s))" and "printedExactly userId"
  shows "length (users (snd (banUser e s userId banned))) = length (users s)
    \<and> (\<forall>i < length (users s).
          user_id (users (snd (banUser e s userId banned)) ! i) = user_id (users s ! i)
          \<and> username (users (snd (banUser e s userId banned)) ! i) = username (users s ! i)
          \<and> password (users (snd (banUser e s userId banned)) ! i) = password (users s ! i)
          \<and> balance (users (snd (banUser e s userId banned)) ! i) = balance (users s ! i)
          \<and> meowBalance (users (snd (banUser e s userId banned)) ! i)
              = meowBalance (users s ! i)
          \<and> isAdmin (users (snd (banUser e s userId banned)) ! i) = isAdmin (users s ! i)
          \<and> user_createdAt (users (snd (banUser e s userId banned)) ! i)
              = user_createdAt (users s ! i)
          \<and> isBanned (users (snd (banUser e s userId banned)) ! i)
              = (if isConnected s \<and> \<not> fails e 0
                    \<and> Some (user_id (users s ! i)) = objectIdOfNumber userId
                 then banned else isBanned (users s ! i)))
    \<and> snd (banUser e s userId banned) = s\<lparr>users := users (snd (banUser e s userId banned))\<rparr>"
proof -
  have "snd (banUser e s userId banned) = s\<lparr>users := users (snd (banUser e s userId banned))\<rparr>"
    by (simp add: banUser_state split: option.splits)
  then show ?thesis
    by (simp add: banUser_users [OF assms(1)])
qed

lemma banUser_sets_flag_only_example:
  "distinct (map user_id (users exampleStorage)) \<and> printedExactly (Number 10)
   \<and> users (snd (banUser exampleEnv exampleStorage (Number 10) True))
       = [alice\<lparr>isBanned := True\<rparr>, bob]
   \<and> users (snd (banUser failingEnv exampleStorage (Number 10) True)) = [alice, bob]"
proof -
  have d: "distinct (map user_id (users exampleStorage))"
    by (simp add: exampleStorage_def alice_def bob_def)
  have x: "users exampleStorage = [alice, bob]" "isConnected exampleStorage"
    "\<not> fails exampleEnv 0" "fails failingEnv 0"
    by (simp_all add: exampleStorage_def exampleEnv_def failingEnv_def)
  have i: "user_id alice = ''000000000000000000000010''"
    "user_id bob = ''000000000000000000000016''"
    by (simp_all add: alice_def bob_def)
  have p: "printedExactly (Number 10)"
    by (simp add: printedExactly_def)
  show ?thesis
    using banUser_sets_flag_only [OF d p, of exampleEnv True]
    by (simp add: d p banUser_state x i key_10)
qed

text \<open>
  While the storage is not connected \<^verbatim>\<open>banUser\<close> returns at once, and the user keeps
  the flag it had.
\<close>

lemma banUser_unconnected_sets_nothing:
  "map user_id (users offlineStorage) = [''000000000000000000000010'', ''000000000000000000000016'']
   \<and> objectIdOfNumber (Number 10) = Some ''000000000000000000000010''
   \<and> map isBanned (users offlineStorage) = [False, False]
   \<and> map isBanned (users (snd (banUser exampleEnv offlineStorage (Number 10) True)))
       = [False, False]"
  by (simp add: key_10 banUser_state offlineStorage_def exampleStorage_def alice_def bob_def)

text \<open>
  Claim C6. The claim holds of a method that finds the user whose numeric identifier it is
  given; \<^verbatim>\<open>banUser\<close> does not. It looks the user up under the decimal numeral of
  \<^verbatim>\<open>userId\<close> padded with zeros, while the numeric identifier of a user is the base-16
  value of the last six characters of its document identifier. Called with the identifier
  that \<^verbatim>\<open>createUser\<close> has just returned, on a connected store that rejects nothing,
  \<^verbatim>\<open>banUser\<close> leaves the new user unbanned and the store as it was; called with the
  numeric identifier of the first user of the example store, it bans the second.
\<close>

theorem banUser_misses_the_user_of_the_id:
  "createUser exampleEnv exampleStorage carol
     = (Inr (convertMongoUser carolDocument), storageWithCarol)
   \<and> user_id (convertMongoUser carolDocument) = Number 13226209
   \<and> isConnected storageWithCarol \<and> \<not> fails exampleEnv 0
   \<and> map username (users storageWithCarol) = [''alice'', ''bob'', ''carol'']
   \<and> map isBanned (users storageWithCarol) = [False, False, False]
   \<and> banUser exampleEnv storageWithCarol (Number 13226209) True = (Inr (), storageWithCarol)
   \<and> user_id (convertMongoUser alice) = Number 16
   \<and> map username (users exampleStorage) = [''alice'', ''bob'']
   \<and> map isBanned (users exampleStorage) = [False, False]
   \<and> map isBanned (users (snd (banUser exampleEnv exampleStorage (Number 16) True)))
       = [False, True]"
proof -
  have c: "isConnected storageWithCarol" "\<not> fails exampleEnv 0" "isConnected exampleStorage"
    "users storageWithCarol = [alice, bob, carolDocument]" "users exampleStorage = [alice, bob]"
    by (simp_all add: storageWithCarol_def exampleStorage_def exampleEnv_def)
  have n: "user_id alice = ''000000000000000000000010''"
    "user_id bob = ''000000000000000000000016''"
    "user_id carolDocument = ''65a1b2c3d4e5f6a7b8c9d0e1''"
    "username alice = ''alice''" "username bob = ''bob''" "username carolDocument = ''carol''"
    "\<not> isBanned alice" "\<not> isBanned bob" "\<not> isBanned carolDocument"
    by (simp_all add: alice_def bob_def carolDocument_def)
  have b: "banUser exampleEnv storageWithCarol (Number 13226209) True = (Inr (), storageWithCarol)"
    by (simp add: banUser_state key_13226209 c n)
  have b2: "users (snd (banUser exampleEnv exampleStorage (Number 16) True))
            = [alice, bob\<lparr>isBanned := True\<rparr>]"
    by (simp add: banUser_state key_16 c n)
  show ?thesis
    by (simp add: createUser_carol id_carol id_alice b b2 c n)
qed

subsection \<open>Claiming farm rewards\<close>

lemma claimFarmRewards_state:
  "claimFarmRewards e s userId =
     (Inr (),
      if isConnected s \<and> \<not> fails e 0
      then (case objectIdOfNumber userId of
              None \<Rightarrow> s
            | Some owner \<Rightarrow>
                s\<lparr>farmCats := updateMany (\<lambda>cat. cat_userId cat = owner)
                                 (\<lambda>cat. cat\<lparr>lastClaimed := clock e 0\<rparr>) (farmCats s)\<rparr>)
      else s)"
  by (simp add: claimFarmRewards_def split: option.splits)

lemma claimFarmRewards_farmCats:
  "farmCats (snd (claimFarmRewards e s userId)) =
     map (\<lambda>cat. if isConnected s \<and> \<not> fails e 0 \<and> Some (cat_userId cat) = objectIdOfNumber userId
                 then cat\<lparr>lastClaimed := clock e 0\<rparr> else cat) (farmCats s)"
proof (cases "isConnected s \<and> \<not> fails e 0")
  case False
  then show ?thesis by (auto simp: claimFarmRewards_state map_idI)
next
  case True
  show ?thesis
  proof (cases "objectIdOfNumber userId")
    case None
    then show ?thesis using True by (simp add: claimFarmRewards_state map_idI)
  next
    case (Some owner)
    have "(\<lambda>cat. Some (cat_userId cat) = Some owner) = (\<lambda>cat. cat_userId cat = owner)"
      by auto
    then show ?thesis
      using True Some by (simp add: claimFarmRewards_state updateMany_def)
  qed
qed

text \<open>
  Claim C9, as amended. For a \<^verbatim>\<open>userId\<close> of a magnitude below \<open>2^53\<close>,
  \<^verbatim>\<open>claimFarmRewards(userId)\<close> keeps the farm cats in place, and of each cat it keeps the identifier, the owner, \<^verbatim>\<open>catId\<close>, the level, the production and
  the date of creation; the \<^verbatim>\<open>lastClaimed\<close> time becomes the current time for every cat
  whose owner reference is the decimal numeral of \<^verbatim>\<open>userId\<close> padded with zeros to 24
  characters, provided the storage is connected and the store does not reject the update,
  and stays as it was for every other cat and in every other case. No other collection
  changes.
\<close>

theorem claimFarmRewards_stamps_only:
  assumes "printedExactly userId"
  shows "length (farmCats (snd (claimFarmRewards e s userId))) = length (farmCats s)
   \<and> (\<forall>i < length (farmCats s).
         cat_id (farmCats (snd (claimFarmRewards e s userId)) ! i) = cat_id (farmCats s ! i)
         \<and> cat_userId (farmCats (snd (claimFarmRewards e s userId)) ! i)
             = cat_userId (farmCats s ! i)
         \<and> catId (farmCats (snd (claimFarmRewards e s userId)) ! i) = catId (farmCats s ! i)
         \<and> level (farmCats (snd (claimFarmRewards e s userId)) ! i) = level (farmCats s ! i)
         \<and> production (farmCats (snd (claimFarmRewards e s userId)) ! i)
             = production (farmCats s ! i)
         \<and> cat_createdAt (farmCats (snd (claimFarmRewards e s userId)) ! i)
             = cat_createdAt (farmCats s ! i)
         \<and> lastClaimed (farmCats (snd (claimFarmRewards e s userId)) ! i)
             = (if isConnected s \<and> \<not> fails e 0
                   \<and> Some (cat_userId (farmCats s ! i)) = objectIdOfNumber userId
                then clock e 0 else lastClaimed (farmCats s ! i)))
   \<and> snd (claimFarmRewards e s userId)
       = s\<lparr>farmCats := farmCats (snd (claimFarmRewards e s userId))\<rparr>"
proof -
  have "snd (claimFarmRewards e s userId)
        = s\<lparr>farmCats := farmCats (snd (claimFarmRewards e s userId))\<rparr>"
    by (simp add: claimFarmRewards_state split: option.splits)
  then show ?thesis
    by (simp add: claimFarmRewards_farmCats)
qed

theorem claimFarmRewards_stamps_only_witness:
  "printedExactly (Number 10)
   \<and> map cat_userId (farmCats exampleStorage)
     = [''000000000000000000000010'', ''000000000000000000000016'', ''000000000000000000000010'']
   \<and> map lastClaimed (farmCats exampleStorage) = [5000, 5000, 5000]
   \<and> map lastClaimed (farmCats (snd (claimFarmRewards exampleEnv exampleStorage (Number 10))))
       = [1700000000000, 5000, 1700000000000]
   \<and> map production (farmCats (snd (claimFarmRewards exampleEnv exampleStorage (Number 10))))
       = map production (farmCats exampleStorage)
   \<and> map lastClaimed (farmCats (snd (claimFarmRewards failingEnv exampleStorage (Number 10))))
       = [5000, 5000, 5000]"
proof -
  have p: "printedExactly (Number 10)"
    by (simp add: printedExactly_def)
  show ?thesis
    using claimFarmRewards_stamps_only [OF p, of exampleEnv exampleStorage]
    by (simp add: p claimFarmRewards_farmCats key_10 exampleStorage_def exampleEnv_def
        failingEnv_def farmCat_def)
qed

text \<open>
  Claim C9 as it is stated fails: while the storage is not connected \<^verbatim>\<open>claimFarmRewards\<close>
  returns at once, and the cats of the user keep their \<^verbatim>\<open>lastClaimed\<close> time.
\<close>

theorem claimFarmRewards_unconnected_stamps_nothing:
  "map cat_userId (farmCats offlineStorage)
     = [''000000000000000000000010'', ''000000000000000000000016'', ''000000000000000000000010'']
   \<and> objectIdOfNumber (Number 10) = Some ''000000000000000000000010''
   \<and> clock exampleEnv 0 = 1700000000000
   \<and> map lastClaimed (farmCats (snd (claimFarmRewards exampleEnv offlineStorage (Number 10))))
       = [5000, 5000, 5000]"
  by (simp add: key_10 claimFarmRewards_state offlineStorage_def exampleStorage_def
      exampleEnv_def farmCat_def)

subsection \<open>The production of a farm\<close>

lemma foldl_production:
  "foldl (\<lambda>sum cat. addition J sum (production cat)) z found
   = foldl (addition J) z (map production found)"
  by (induction found arbitrary: z) simp_all

lemma getFarmData_total:
  "\<exists>farm. getFarmData J e s userId = Inr farm
     \<and> totalProduction farm =
         (if isConnected s \<and> \<not> fails e 0
          then foldl (addition J) (ofInteger J 0)
                 (map production
                    (filter (\<lambda>cat. Some (cat_userId cat) = objectIdOfNumber userId) (farmCats s)))
          else ofInteger J 0)"
proof (cases "objectIdOfNumber userId")
  case None
  then show ?thesis
    by (simp add: getFarmData_def emptyFarm_def)
next
  case (Some owner)
  have "(\<lambda>cat. Some (cat_userId cat) = Some owner) = (\<lambda>cat. cat_userId cat = owner)"
    by auto
  then show ?thesis
    using Some by (simp add: getFarmData_def emptyFarm_def Let_def foldl_production)
qed

text \<open>
  Claim C7, as amended. For a \<^verbatim>\<open>userId\<close> of a magnitude below \<open>2^53\<close>: when the storage
  is connected and the store does not reject the query, the \<^verbatim>\<open>totalProduction\<close> that
  \<^verbatim>\<open>getFarmData(userId)\<close> returns is the sum of the production values of exactly the farm cats whose owner reference is the decimal numeral
  of \<^verbatim>\<open>userId\<close> padded with zeros to 24 characters, added from the left in the order of
  the collection starting from the literal 0, which is 0 when there is no such cat. When
  the storage is not connected or the query is rejected it is 0 whatever cats there are.
\<close>

theorem getFarmData_totals_owned_cats:
  assumes "printedExactly userId"
  shows "\<exists>farm. getFarmData J e s userId = Inr farm
     \<and> totalProduction farm =
         (if isConnected s \<and> \<not> fails e 0
          then foldl (addition J) (ofInteger J 0)
                 (map production
                    (filter (\<lambda>cat. Some (cat_userId cat) = objectIdOfNumber userId) (farmCats s)))
          else ofInteger J 0)
     \<and> (filter (\<lambda>cat. Some (cat_userId cat) = objectIdOfNumber userId) (farmCats s) = []
          \<longrightarrow> totalProduction farm = ofInteger J 0)"
proof -
  obtain farm where f: "getFarmData J e s userId = Inr farm"
    and t: "totalProduction farm =
         (if isConnected s \<and> \<not> fails e 0
          then foldl (addition J) (ofInteger J 0)
                 (map production
                    (filter (\<lambda>cat. Some (cat_userId cat) = objectIdOfNumber userId) (farmCats s)))
          else ofInteger J 0)"
    using getFarmData_total [of J e s userId] by blast
  have "filter (\<lambda>cat. Some (cat_userId cat) = objectIdOfNumber userId) (farmCats s) = []
          \<longrightarrow> totalProduction farm = ofInteger J 0"
    using t by simp
  with f t show ?thesis by blast
qed

theorem getFarmData_totals_owned_cats_witness:
  "printedExactly (Number 10) \<and> printedExactly (Number 16) \<and> printedExactly (Number 1)
   \<and> map production (farmCats exampleStorage) = [Decimal 5 1, Decimal 20 1, Decimal 7 1]
   \<and> map_sum id totalProduction (getFarmData decimalArithmetic exampleEnv exampleStorage (Number 10))
       = Inr (Decimal 12 1)
   \<and> map_sum id totalProduction (getFarmData decimalArithmetic exampleEnv exampleStorage (Number 16))
       = Inr (Decimal 20 1)
   \<and> map_sum id totalProduction (getFarmData decimalArithmetic exampleEnv exampleStorage (Number 1))
       = Inr (Decimal 0 0)"
proof -
  have x: "isConnected exampleStorage" "\<not> fails exampleEnv 0"
    by (simp_all add: exampleStorage_def exampleEnv_def)
  have c: "farmCats exampleStorage =
        [farmCat ''000000000000000000000004'' ''000000000000000000000010'' 5,
         farmCat ''000000000000000000000005'' ''000000000000000000000016'' 20,
         farmCat ''000000000000000000000006'' ''000000000000000000000010'' 7]"
    by (simp add: exampleStorage_def)
  have a: "addition decimalArithmetic = decimalAdd" "ofInteger decimalArithmetic 0 = Decimal 0 0"
    by (simp_all add: decimalArithmetic_def)
  have p: "printedExactly (Number 10)" "printedExactly (Number 16)" "printedExactly (Number 1)"
    by (simp_all add: printedExactly_def)
  show ?thesis
    using getFarmData_totals_owned_cats [OF p(1), of decimalArithmetic exampleEnv exampleStorage]
      getFarmData_totals_owned_cats [OF p(2), of decimalArithmetic exampleEnv exampleStorage]
      getFarmData_totals_owned_cats [OF p(3), of decimalArithmetic exampleEnv exampleStorage]
    by (auto simp: p x c a key_10 key_16 key_1 farmCat_def decimalAdd_def)
qed

text \<open>
  Claim C7 as it is stated fails: while the storage is not connected \<^verbatim>\<open>getFarmData\<close>
  returns a total of 0 for a user who owns cats with a production.
\<close>

theorem getFarmData_unconnected_totals_zero:
  "map cat_userId (farmCats offlineStorage)
     = [''000000000000000000000010'', ''000000000000000000000016'', ''000000000000000000000010'']
   \<and> map production (farmCats offlineStorage) = [Decimal 5 1, Decimal 20 1, Decimal 7 1]
   \<and> objectIdOfNumber (Number 10) = Some ''000000000000000000000010''
   \<and> map_sum id totalProduction (getFarmData decimalArithmetic exampleEnv offlineStorage (Number 10))
       = Inr (Decimal 0 0)"
  by (simp add: key_10 getFarmData_def emptyFarm_def decimalArithmetic_def offlineStorage_def
      exampleStorage_def farmCat_def)

subsection \<open>Approving a deposit\<close>

lemma updateUserBalance_users:
  assumes "distinct (map user_id (users s))"
    and "isConnected s" and "\<not> fails e 0" and "objectIdOfNumber n = Some k"
  shows "users (snd (updateUserBalance e s n newBalance None))
         = map (\<lambda>u. if user_id u = k then u\<lparr>balance := newBalance\<rparr> else u) (users s)"
proof -
  have "users (snd (updateUserBalance e s n newBalance None))
        = updateFirst (\<lambda>u. user_id u = k) (\<lambda>u. u\<lparr>balance := newBalance\<rparr>) (users s)"
    using assms(2-4) by (simp add: updateUserBalance_def)
  also have "\<dots> = map (\<lambda>u. if user_id u = k then u\<lparr>balance := newBalance\<rparr> else u) (users s)"
    by (rule updateFirst_distinct [OF assms(1)]) simp
  finally show ?thesis .
qed

lemma updateDepositStatus_not_approved:
  assumes "status \<noteq> ''approved''"
  shows "users (snd (updateDepositStatus J e s ident status)) = users s"
  using assms
  by (simp add: updateDepositStatus_def Let_def split: option.splits)

lemma updateDepositStatus_idle:
  assumes "\<not> isConnected s \<or> fails e 0"
  shows "updateDepositStatus J e s ident status = (Inr (), s)"
  using assms
  by (auto simp: updateDepositStatus_def split: option.splits)

lemma updateDepositStatus_approved:
  assumes dist: "distinct (map user_id (users s))"
    and conn: "isConnected s"
    and ok: "\<not> fails e 0" "\<not> fails e 1" "\<not> fails e 2"
    and key: "objectIdOfNumber ident = Some k"
    and dep: "findOne (\<lambda>d. deposit_id d = k) (deposits s) = Some d"
    and owner: "objectIdOfNumber (parseInt (deposit_userId d)) = Some (deposit_userId d)"
  shows "users (snd (updateDepositStatus J e s ident ''approved'')) =
     map (\<lambda>u. if user_id u = deposit_userId d
               then u\<lparr>balance :=
                      toFixed J (addition J (parseFloat J (balance u))
                                   (parseFloat J (deposit_amount d))) 2\<rparr>
               else u) (users s)"
proof (cases "findOne (\<lambda>u. user_id u = deposit_userId d) (users s)")
  case None
  then have "\<forall>u \<in> set (users s). user_id u \<noteq> deposit_userId d"
    by (rule findOne_None)
  then have "map (\<lambda>u. if user_id u = deposit_userId d
               then u\<lparr>balance :=
                      toFixed J (addition J (parseFloat J (balance u))
                                   (parseFloat J (deposit_amount d))) 2\<rparr>
               else u) (users s) = users s"
    by (simp add: map_idI)
  moreover have "users (snd (updateDepositStatus J e s ident ''approved'')) = users s"
    using conn ok key dep None by (simp add: updateDepositStatus_def Let_def)
  ultimately show ?thesis by simp
next
  case (Some user)
  let ?s1 = "s\<lparr>deposits := updateFirst (\<lambda>d. deposit_id d = k)
                 (\<lambda>d. d\<lparr>deposit_status := ''approved''\<rparr>) (deposits s)\<rparr>"
  let ?new = "\<lambda>u. toFixed J (addition J (parseFloat J (balance u))
                      (parseFloat J (deposit_amount d))) 2"
  have u: "user \<in> set (users s)" "user_id user = deposit_userId d"
    using findOne_Some [OF Some] by simp_all
  have "updateDepositStatus J e s ident ''approved''
        = updateUserBalance (later 2 e) ?s1 (parseInt (deposit_userId d)) (?new user) None"
    using conn ok key dep Some by (simp add: updateDepositStatus_def Let_def)
  moreover have l: "\<not> fails (later 2 e) 0"
    using ok(3) by (simp add: later_def numeral_2_eq_2)
  moreover have "distinct (map user_id (users ?s1))" "isConnected ?s1"
    using dist conn by simp_all
  ultimately have "users (snd (updateDepositStatus J e s ident ''approved''))
        = map (\<lambda>x. if user_id x = deposit_userId d then x\<lparr>balance := ?new user\<rparr> else x)
            (users ?s1)"
    using updateUserBalance_users [of ?s1 "later 2 e" "parseInt (deposit_userId d)"
        "deposit_userId d" "?new user"] owner
    by simp
  also have "\<dots> = map (\<lambda>x. if user_id x = user_id user then (\<lambda>y. x\<lparr>balance := ?new y\<rparr>) user
                             else x) (users s)"
    by (simp add: u)
  also have "\<dots> = map (\<lambda>x. if user_id x = user_id user then x\<lparr>balance := ?new x\<rparr> else x)
                       (users s)"
  proof (rule map_cong [OF refl])
    fix x assume "x \<in> set (users s)"
    then have "user_id x = user_id user \<Longrightarrow> x = user"
      using dist u(1) by (meson distinct_map inj_onD)
    then show "(if user_id x = user_id user then (\<lambda>y. x\<lparr>balance := ?new y\<rparr>) user else x)
               = (if user_id x = user_id user then x\<lparr>balance := ?new x\<rparr> else x)"
      by auto
  qed
  finally show ?thesis by (simp add: u)
qed

lemma updateDepositStatus_no_deposit:
  assumes "isConnected s" and "\<not> fails e 0" and "objectIdOfNumber ident = Some k"
    and "findOne (\<lambda>d. deposit_id d = k) (deposits s) = None"
  shows "users (snd (updateDepositStatus J e s ident status)) = users s"
  using assms by (simp add: updateDepositStatus_def Let_def)

text \<open>
  What \<^verbatim>\<open>updateDepositStatus\<close> does, told by the documents its queries match. The
  document identifiers of the users being distinct and \<^verbatim>\<open>id\<close> of a magnitude below \<open>2^53\<close>: when the storage is connected, the store rejects none of
  the three operations, the deposit is found under the decimal numeral of \<^verbatim>\<open>id\<close> padded with zeros to 24 characters, and the
  owner reference of the deposit is itself such a padded decimal numeral (of a number below
  \<open>2^53\<close>, so that its decimal reading makes the same identifier again), then
  \<^verbatim>\<open>updateDepositStatus(id, "approved")\<close> gives the user with the owner's identifier the
  balance \<^verbatim>\<open>(parseFloat(balance) + parseFloat(amount)).toFixed(2)\<close> and leaves every other
  user as it was. With any other status no user changes; with no deposit found no user
  changes; and when the storage is not connected or the first update is rejected nothing
  changes at all.
\<close>

lemma updateDepositStatus_credits_owner:
  assumes "distinct (map user_id (users s))" and "printedExactly ident"
  shows "(isConnected s \<and> \<not> fails e 0 \<and> \<not> fails e 1 \<and> \<not> fails e 2
          \<and> objectIdOfNumber ident = Some k
          \<and> findOne (\<lambda>d. deposit_id d = k) (deposits s) = Some d
          \<and> parseInt (deposit_userId d) = Number n \<and> n < 2 ^ 53
          \<and> objectIdOfNumber (Number n) = Some (deposit_userId d)
          \<longrightarrow> users (snd (updateDepositStatus J e s ident ''approved'')) =
                map (\<lambda>u. if user_id u = deposit_userId d
                          then u\<lparr>balance :=
                                 toFixed J (addition J (parseFloat J (balance u))
                                              (parseFloat J (deposit_amount d))) 2\<rparr>
                          else u) (users s))
    \<and> (status \<noteq> ''approved'' \<longrightarrow>
          users (snd (updateDepositStatus J e s ident status)) = users s)
    \<and> (isConnected s \<and> \<not> fails e 0 \<and> objectIdOfNumber ident = Some k
          \<and> findOne (\<lambda>d. deposit_id d = k) (deposits s) = None
          \<longrightarrow> users (snd (updateDepositStatus J e s ident status)) = users s)
    \<and> (\<not> isConnected s \<or> fails e 0 \<longrightarrow>
          updateDepositStatus J e s ident status = (Inr (), s))"
proof (intro conjI impI)
  assume a: "isConnected s \<and> \<not> fails e 0 \<and> \<not> fails e 1 \<and> \<not> fails e 2
          \<and> objectIdOfNumber ident = Some k
          \<and> findOne (\<lambda>d. deposit_id d = k) (deposits s) = Some d
          \<and> parseInt (deposit_userId d) = Number n \<and> n < 2 ^ 53
          \<and> objectIdOfNumber (Number n) = Some (deposit_userId d)"
  then have "objectIdOfNumber (parseInt (deposit_userId d)) = Some (deposit_userId d)"
    by simp
  with a show "users (snd (updateDepositStatus J e s ident ''approved'')) =
                map (\<lambda>u. if user_id u = deposit_userId d
                          then u\<lparr>balance :=
                                 toFixed J (addition J (parseFloat J (balance u))
                                              (parseFloat J (deposit_amount d))) 2\<rparr>
                          else u) (users s)"
    using updateDepositStatus_approved [OF assms(1), of e ident k d J] by blast
next
  assume "status \<noteq> ''approved''"
  then show "users (snd (updateDepositStatus J e s ident status)) = users s"
    by (rule updateDepositStatus_not_approved)
next
  assume "isConnected s \<and> \<not> fails e 0 \<and> objectIdOfNumber ident = Some k
          \<and> findOne (\<lambda>d. deposit_id d = k) (deposits s) = None"
  then show "users (snd (updateDepositStatus J e s ident status)) = users s"
    using updateDepositStatus_no_deposit by blast
next
  assume "\<not> isConnected s \<or> fails e 0"
  then show "updateDepositStatus J e s ident status = (Inr (), s)"
    by (rule updateDepositStatus_idle)
qed

lemma balance_after_deposit:
  "decimalToFixed (decimalAdd (decimalParseFloat ''100.00'') (decimalParseFloat ''50.00'')) 2
   = ''150.00''"
proof -
  have p1: "decimalParseFloat ''100.00'' = Decimal 10000 2"
    by (simp add: decimalParseFloat_def parseUnsigned_def isDecimalDigit_def digitsValue_def
        digit_defs Let_def)
  have p2: "decimalParseFloat ''50.00'' = Decimal 5000 2"
    by (simp add: decimalParseFloat_def parseUnsigned_def isDecimalDigit_def digitsValue_def
        digit_defs Let_def)
  have s: "decimalAdd (Decimal 10000 2) (Decimal 5000 2) = Decimal 15000 2"
    by (simp add: decimalAdd_def)
  have d: "decimal 15000 = ''15000''"
    by (simp add: decimal.simps digitChar_def)
  show ?thesis
    unfolding p1 p2 s by (simp add: decimalToFixed_def padStart_def d)
qed

lemma parseInt_alice: "parseInt ''000000000000000000000010'' = Number 10"
  by (simp add: parseInt_def parseIntRadix_def digit_defs)

lemma updateDepositStatus_credits_owner_example:
  "distinct (map user_id (users exampleStorage)) \<and> printedExactly (Number 1)
   \<and> map deposit_id (deposits exampleStorage) = [''000000000000000000000001'']
   \<and> map deposit_userId (deposits exampleStorage) = [''000000000000000000000010'']
   \<and> map deposit_amount (deposits exampleStorage) = [''50.00'']
   \<and> users exampleStorage = [alice, bob] \<and> balance alice = ''100.00''
   \<and> users (snd (updateDepositStatus decimalArithmetic exampleEnv exampleStorage (Number 1)
                    ''approved'')) = [alice\<lparr>balance := ''150.00''\<rparr>, bob]
   \<and> users (snd (updateDepositStatus decimalArithmetic exampleEnv exampleStorage (Number 1)
                    ''rejected'')) = [alice, bob]"
proof -
  have d: "distinct (map user_id (users exampleStorage))"
    by (simp add: exampleStorage_def alice_def bob_def)
  have x: "isConnected exampleStorage" "fails exampleEnv = (\<lambda>k. False)"
    "deposits exampleStorage = [aliceDeposit]" "users exampleStorage = [alice, bob]"
    by (simp_all add: exampleStorage_def exampleEnv_def)
  have f: "findOne (\<lambda>d. deposit_id d = ''000000000000000000000001'') [aliceDeposit]
           = Some aliceDeposit"
    by (simp add: findOne_def aliceDeposit_def)
  have o: "deposit_userId aliceDeposit = ''000000000000000000000010''"
    "deposit_amount aliceDeposit = ''50.00''"
    "deposit_id aliceDeposit = ''000000000000000000000001''"
    by (simp_all add: aliceDeposit_def)
  have i: "user_id alice = ''000000000000000000000010''"
    "user_id bob = ''000000000000000000000016''" "balance alice = ''100.00''"
    by (simp_all add: alice_def bob_def)
  have t: "toFixed decimalArithmetic
             (addition decimalArithmetic (parseFloat decimalArithmetic ''100.00'')
                (parseFloat decimalArithmetic ''50.00'')) 2 = ''150.00''"
    by (simp add: decimalArithmetic_def balance_after_deposit)
  have p: "printedExactly (Number 1)"
    by (simp add: printedExactly_def)
  show ?thesis
    using updateDepositStatus_credits_owner
      [OF d p, of exampleEnv "''000000000000000000000001''" aliceDeposit 10
        decimalArithmetic "''rejected''"]
    by (simp add: d p x f o i t key_1 key_10 parseInt_alice)
qed

text \<open>
  While the storage is not connected \<^verbatim>\<open>updateDepositStatus\<close> returns at once, and
  approving a deposit of 50.00 leaves the balance of its owner at 100.00.
\<close>

lemma updateDepositStatus_unconnected_credits_nothing:
  "map deposit_id (deposits offlineStorage) = [''000000000000000000000001'']
   \<and> objectIdOfNumber (Number 1) = Some ''000000000000000000000001''
   \<and> map deposit_userId (deposits offlineStorage) = [''000000000000000000000010'']
   \<and> map deposit_amount (deposits offlineStorage) = [''50.00'']
   \<and> map user_id (users offlineStorage)
       = [''000000000000000000000010'', ''000000000000000000000016'']
   \<and> map balance (users offlineStorage) = [''100.00'', ''20.50'']
   \<and> map balance
         (users (snd (updateDepositStatus decimalArithmetic exampleEnv offlineStorage (Number 1)
                        ''approved''))) = [''100.00'', ''20.50'']"
  by (simp add: key_1 updateDepositStatus_def offlineStorage_def exampleStorage_def
      aliceDeposit_def alice_def bob_def)

lemma createDeposit_carol:
  "createDeposit secondEnv storageWithCarol carolDeposit
   = (Inr (convertMongoDeposit carolDepositDocument), storageWithDeposit)"
proof -
  have "isConnected storageWithCarol" "deposits storageWithCarol = [aliceDeposit]"
    by (simp_all add: storageWithCarol_def exampleStorage_def)
  then show ?thesis
    by (simp add: createDeposit_def key_13226209 carolDeposit_def saveNew_def Let_def
        orNull_def secondEnv_def exampleEnv_def aliceDeposit_def carolDepositDocument_def
        storageWithDeposit_def)
qed

lemma id_carolDeposit:
  "deposit_id (convertMongoDeposit carolDepositDocument) = Number 13226210"
  "deposit_userId (convertMongoDeposit carolDepositDocument) = Number 13226209"
  by (simp_all add: convertMongoDeposit_def carolDepositDocument_def idOfObjectId_def
      parseInt_def parseIntRadix_def sliceLast_def digit_defs)

lemma parseInt_dave: "parseInt ''65a1b2c3d4e5f6a7b8c9d0e1'' = Number 65"
  by (simp add: parseInt_def parseIntRadix_def digit_defs)

lemma balance_of_dave_after_deposit:
  "toFixed decimalArithmetic
     (addition decimalArithmetic (parseFloat decimalArithmetic ''100.00'')
        (parseFloat decimalArithmetic ''50.00'')) 2 = ''150.00''"
  by (simp add: decimalArithmetic_def balance_after_deposit)

text \<open>
  Claim C2. The claim holds of a method that finds the deposit whose numeric identifier it
  is given and credits the user the deposit refers to; \<^verbatim>\<open>updateDepositStatus\<close> does
  neither. A user is created, the user's deposit of 50.00 is created, and the deposit is
  approved under the identifier that \<^verbatim>\<open>createDeposit\<close> returned, on a connected store that
  rejects nothing: the deposit is looked up under the decimal numeral of that identifier,
  is not found, and neither its status nor any balance changes. And where a deposit that
  is found refers to its owner by the owner's document identifier, the balance is written
  through the decimal reading of that identifier: the owner keeps 100.00 and another user
  is given the owner's 150.00.
\<close>

theorem updateDepositStatus_misses_deposit_and_owner:
  "createUser exampleEnv exampleStorage carol
     = (Inr (convertMongoUser carolDocument), storageWithCarol)
   \<and> user_id (convertMongoUser carolDocument) = Number 13226209
   \<and> createDeposit secondEnv storageWithCarol carolDeposit
     = (Inr (convertMongoDeposit carolDepositDocument), storageWithDeposit)
   \<and> deposit_id (convertMongoDeposit carolDepositDocument) = Number 13226210
   \<and> deposit_userId (convertMongoDeposit carolDepositDocument) = Number 13226209
   \<and> isConnected storageWithDeposit \<and> \<not> fails exampleEnv 0
   \<and> map balance (users storageWithDeposit) = [''100.00'', ''20.50'', ''1000.00'']
   \<and> map deposit_status (deposits storageWithDeposit) = [''pending'', ''pending'']
   \<and> updateDepositStatus decimalArithmetic exampleEnv storageWithDeposit (Number 13226210)
         ''approved'' = (Inr (), storageWithDeposit)
   \<and> map user_id (users referringStorage)
       = [''65a1b2c3d4e5f6a7b8c9d0e1'', ''000000000000000000000065'']
   \<and> map balance (users referringStorage) = [''100.00'', ''7.00'']
   \<and> map deposit_userId (deposits referringStorage) = [''65a1b2c3d4e5f6a7b8c9d0e1'']
   \<and> map deposit_amount (deposits referringStorage) = [''50.00'']
   \<and> map balance
         (users (snd (updateDepositStatus decimalArithmetic exampleEnv referringStorage
                        (Number 1) ''approved''))) = [''100.00'', ''150.00'']"
proof -
  have c: "isConnected storageWithDeposit" "fails exampleEnv = (\<lambda>k. False)"
    "users storageWithDeposit = [alice, bob, carolDocument]"
    "deposits storageWithDeposit = [aliceDeposit, carolDepositDocument]"
    by (simp_all add: storageWithDeposit_def storageWithCarol_def exampleStorage_def
        exampleEnv_def)
  have n: "balance alice = ''100.00''" "balance bob = ''20.50''"
    "balance carolDocument = ''1000.00''"
    "deposit_status aliceDeposit = ''pending''" "deposit_status carolDepositDocument = ''pending''"
    "deposit_id aliceDeposit = ''000000000000000000000001''"
    "deposit_id carolDepositDocument = ''65a1b2c3d4e5f6a7b8c9d0e2''"
    by (simp_all add: alice_def bob_def carolDocument_def aliceDeposit_def
        carolDepositDocument_def)
  have u: "updateDepositStatus decimalArithmetic exampleEnv storageWithDeposit
             (Number 13226210) ''approved'' = (Inr (), storageWithDeposit)"
    by (simp add: updateDepositStatus_def key_13226210 c n findOne_def Let_def)
  have r: "isConnected referringStorage" "users referringStorage = [dave, erin]"
    "deposits referringStorage = [daveDeposit]"
    by (simp_all add: referringStorage_def)
  have m: "user_id dave = ''65a1b2c3d4e5f6a7b8c9d0e1''"
    "user_id erin = ''000000000000000000000065''"
    "balance dave = ''100.00''" "balance erin = ''7.00''"
    "deposit_id daveDeposit = ''000000000000000000000001''"
    "deposit_userId daveDeposit = ''65a1b2c3d4e5f6a7b8c9d0e1''"
    "deposit_amount daveDeposit = ''50.00''"
    by (simp_all add: dave_def erin_def daveDeposit_def)
  have v: "users (snd (updateDepositStatus decimalArithmetic exampleEnv referringStorage
                        (Number 1) ''approved'')) = [dave, erin\<lparr>balance := ''150.00''\<rparr>]"
    by (simp add: updateDepositStatus_def updateUserBalance_def key_1 key_65 parseInt_dave
        balance_of_dave_after_deposit r m c(2) findOne_def later_def Let_def)
  show ?thesis
    by (simp add: createUser_carol id_carol createDeposit_carol id_carolDeposit u v c r n m)
qed

end
